theory Spec2Isabelle
  imports Complex_Main "HOL-Library.Monad_Syntax"
begin

section \<open>Numbers, vectors and arrays\<close>

text \<open>
  JavaScript numbers are modelled as exact reals: every statement below is about the
  arithmetic the code writes down, not about the rounding of IEEE doubles.

  Small fixed-size vectors that the code only passes by value (a center, a position, a
  point) are tuples. The arrays whose identity matters (the viewport rectangle, the
  scissor rectangle and the background colour of a camera, the front direction of a game
  object, and the arrays callers hand in or get back) live in an explicit heap: a
  reference is an index into the list of all arrays allocated so far.
\<close>

type_synonym vec2 = "real \<times> real"
type_synonym vec3 = "real \<times> real \<times> real"

type_synonym ref = nat
type_synonym heap = "real list list"

text \<open>\<open>let out = []\<close> / an array literal: a new array, distinct from every existing one.\<close>

definition js_alloc :: "real list \<Rightarrow> heap \<Rightarrow> ref \<times> heap" where
  "js_alloc xs h = (length h, h @ [xs])"

text \<open>
  \<open>a[i]\<close>. Reading past the end of a JavaScript array yields \<open>undefined\<close> (and the
  arithmetic on it \<open>NaN\<close>); the model has no such number and answers \<open>None\<close>.
\<close>

definition js_get :: "heap \<Rightarrow> ref \<Rightarrow> nat \<Rightarrow> real option" where
  "js_get h r i = (if r < length h \<and> i < length (h ! r) then Some (h ! r ! i) else None)"

text \<open>
  \<open>a[i] = v\<close>. Writing at the length of the array appends; writing further out would
  leave holes, which the model does not represent (\<open>None\<close>).
\<close>

definition arr_set :: "real list \<Rightarrow> nat \<Rightarrow> real \<Rightarrow> real list" where
  "arr_set xs i v = (if i < length xs then xs[i := v] else xs @ [v])"

definition js_set :: "ref \<Rightarrow> nat \<Rightarrow> real \<Rightarrow> heap \<Rightarrow> heap option" where
  "js_set r i v h =
     (if r < length h \<and> i \<le> length (h ! r) then Some (h[r := arr_set (h ! r) i v]) else None)"

text \<open>
  \<open>a / b\<close> with a divisor that may be zero. JavaScript answers \<open>Infinity\<close> or \<open>NaN\<close>
  there; the model has no such number and answers \<open>None\<close>.
\<close>

definition js_div :: "real \<Rightarrow> real \<Rightarrow> real option" where
  "js_div a b = (if b = 0 then None else Some (a / b))"

text \<open>
  The numbers the model starts from (the center and the width of a camera, its depth
  constant, the elements arrays hold, the transforms) are finite numbers. A number the
  code derives from them need not be one: a division by zero gives \<open>Infinity\<close> or
  \<open>NaN\<close>, an element read past the end of an array is \<open>undefined\<close>. A derived number
  is a \<open>jsnum\<close>: \<open>Some r\<close> is the finite number \<open>r\<close>, and \<open>None\<close> is a value that is
  not a finite number or is computed from one. The code goes on computing with such a
  value and never raises; the model carries \<open>None\<close> along and says nothing more about
  it (in JavaScript a sum, difference or product with such an operand is again not a
  finite number, a quotient by one may be).
\<close>

type_synonym jsnum = "real option"
type_synonym jvec3 = "jsnum \<times> jsnum \<times> jsnum"
type_synonym jvec4 = "jsnum \<times> jsnum \<times> jsnum \<times> jsnum"

definition jn_add :: "jsnum \<Rightarrow> jsnum \<Rightarrow> jsnum" where
  "jn_add a b = do { x \<leftarrow> a; y \<leftarrow> b; Some (x + y) }"

definition jn_sub :: "jsnum \<Rightarrow> jsnum \<Rightarrow> jsnum" where
  "jn_sub a b = do { x \<leftarrow> a; y \<leftarrow> b; Some (x - y) }"

definition jn_mul :: "jsnum \<Rightarrow> jsnum \<Rightarrow> jsnum" where
  "jn_mul a b = do { x \<leftarrow> a; y \<leftarrow> b; Some (x * y) }"

definition jn_div :: "jsnum \<Rightarrow> jsnum \<Rightarrow> jsnum" where
  "jn_div a b = do { x \<leftarrow> a; y \<leftarrow> b; js_div x y }"


section \<open>camera.js: data\<close>

text \<open>
  Modelled from the spec: \<open>CameraState\<close> (camera_state.js, not part of this source),
  which holds the logical center and the width of the viewing window and offers the plain
  accessors \<open>getCenter\<close>, \<open>setCenter\<close>, \<open>getWidth\<close> and \<open>setWidth\<close>. The
  height is not stored.
\<close>

record CameraState =
  cs_center :: vec2
  cs_width :: real

definition cs_getCenter :: "CameraState \<Rightarrow> vec2" where
  "cs_getCenter s = cs_center s"

definition cs_setCenter :: "vec2 \<Rightarrow> CameraState \<Rightarrow> CameraState" where
  "cs_setCenter p s = s\<lparr>cs_center := p\<rparr>"

definition cs_getWidth :: "CameraState \<Rightarrow> real" where
  "cs_getWidth s = cs_width s"

definition cs_setWidth :: "real \<Rightarrow> CameraState \<Rightarrow> CameraState" where
  "cs_setWidth w s = s\<lparr>cs_width := w\<rparr>"

text \<open>
  Modelled from the spec: the camera-shake collaborator (not part of this source),
  consumed only through \<open>getCenter()\<close>, which returns the shake-adjusted center of the
  current frame.
\<close>

record CameraShake =
  shake_center :: vec2

definition shake_getCenter :: "CameraShake \<Rightarrow> vec2" where
  "shake_getCenter s = shake_center s"

text \<open>
  A \<open>mat4\<close> is column-major: elements 0..3 are the first column, 12..15 the last. It is
  kept as its four columns. Its elements, like the values of the render cache, are
  derived numbers.
\<close>

type_synonym mat4 = "jvec4 \<times> jvec4 \<times> jvec4 \<times> jvec4"

record PerRenderCache =
  mWCToPixelRatio :: jsnum
  mCameraOrgX :: jsnum
  mCameraOrgY :: jsnum
  mCameraPosInPixelSpace :: jvec3

definition PerRenderCache_new :: PerRenderCache where
  "PerRenderCache_new =
     \<lparr>mWCToPixelRatio = Some 1, mCameraOrgX = Some 1, mCameraOrgY = Some 1,
      mCameraPosInPixelSpace = (Some 0, Some 0, Some 0)\<rparr>"

record Camera =
  mCameraState :: CameraState
  mCameraShake :: "CameraShake option"
  mViewport :: ref
  mViewportBound :: real
  mScissorBound :: ref
  kCameraZ :: real
  mCameraMatrix :: mat4
  mBGColor :: ref
  mRenderCache :: PerRenderCache


section \<open>camera.js: basic getters and setters\<close>

definition setWCCenter :: "real \<Rightarrow> real \<Rightarrow> Camera \<Rightarrow> Camera" where
  "setWCCenter xPos yPos this = this\<lparr>mCameraState := cs_setCenter (xPos, yPos) (mCameraState this)\<rparr>"

definition getWCCenter :: "Camera \<Rightarrow> vec2" where
  "getWCCenter this = cs_getCenter (mCameraState this)"

definition getWCCenterInPixelSpace :: "Camera \<Rightarrow> jvec3" where
  "getWCCenterInPixelSpace this = mCameraPosInPixelSpace (mRenderCache this)"

definition setWCWidth :: "real \<Rightarrow> Camera \<Rightarrow> Camera" where
  "setWCWidth w this = this\<lparr>mCameraState := cs_setWidth w (mCameraState this)\<rparr>"

definition getWCWidth :: "Camera \<Rightarrow> real" where
  "getWCWidth this = cs_getWidth (mCameraState this)"

text \<open>\<open>eViewport\<close>: the indices of a viewport array.\<close>

definition eOrgX :: nat where "eOrgX = 0"
definition eOrgY :: nat where "eOrgY = 1"
definition eWidth :: nat where "eWidth = 2"
definition eHeight :: nat where "eHeight = 3"

definition getWCHeight :: "Camera \<Rightarrow> heap \<Rightarrow> real option" where
  "getWCHeight this h = do {
     vh \<leftarrow> js_get h (mViewport this) eHeight;
     vw \<leftarrow> js_get h (mViewport this) eWidth;
     ratio \<leftarrow> js_div vh vw;
     Some (cs_getWidth (mCameraState this) * ratio)
   }"

text \<open>
  \<open>setViewport(viewportArray, bound)\<close>: \<open>bound = None\<close> is the call without the second
  argument. The eight element assignments happen one after the other on the heap, so the
  model also says what happens when \<open>viewportArray\<close> is one of the camera's own arrays.
\<close>

definition setViewport :: "Camera \<Rightarrow> ref \<Rightarrow> real option \<Rightarrow> heap \<Rightarrow> heap option" where
  "setViewport this viewportArray bound h0 =
     (let bound = (case bound of None \<Rightarrow> mViewportBound this | Some b \<Rightarrow> b) in do {
        a0 \<leftarrow> js_get h0 viewportArray 0;
        h1 \<leftarrow> js_set (mViewport this) 0 (a0 + bound) h0;
        a1 \<leftarrow> js_get h1 viewportArray 1;
        h2 \<leftarrow> js_set (mViewport this) 1 (a1 + bound) h1;
        a2 \<leftarrow> js_get h2 viewportArray 2;
        h3 \<leftarrow> js_set (mViewport this) 2 (a2 - (2 * bound)) h2;
        a3 \<leftarrow> js_get h3 viewportArray 3;
        h4 \<leftarrow> js_set (mViewport this) 3 (a3 - (2 * bound)) h3;
        b0 \<leftarrow> js_get h4 viewportArray 0;
        h5 \<leftarrow> js_set (mScissorBound this) 0 b0 h4;
        b1 \<leftarrow> js_get h5 viewportArray 1;
        h6 \<leftarrow> js_set (mScissorBound this) 1 b1 h5;
        b2 \<leftarrow> js_get h6 viewportArray 2;
        h7 \<leftarrow> js_set (mScissorBound this) 2 b2 h6;
        b3 \<leftarrow> js_get h7 viewportArray 3;
        js_set (mScissorBound this) 3 b3 h7
      })"

text \<open>\<open>getViewport()\<close>: allocates \<open>out\<close>, fills it from the scissor rectangle, returns it.\<close>

definition getViewport :: "Camera \<Rightarrow> heap \<Rightarrow> (ref \<times> heap) option" where
  "getViewport this h0 =
     (let (out, h1) = js_alloc [] h0 in do {
        s0 \<leftarrow> js_get h1 (mScissorBound this) 0;
        h2 \<leftarrow> js_set out 0 s0 h1;
        s1 \<leftarrow> js_get h2 (mScissorBound this) 1;
        h3 \<leftarrow> js_set out 1 s1 h2;
        s2 \<leftarrow> js_get h3 (mScissorBound this) 2;
        h4 \<leftarrow> js_set out 2 s2 h3;
        s3 \<leftarrow> js_get h4 (mScissorBound this) 3;
        h5 \<leftarrow> js_set out 3 s3 h4;
        Some (out, h5)
      })"

definition setBackgroundColor :: "ref \<Rightarrow> Camera \<Rightarrow> Camera" where
  "setBackgroundColor newColor this = this\<lparr>mBGColor := newColor\<rparr>"

definition getBackgroundColor :: "Camera \<Rightarrow> ref" where
  "getBackgroundColor this = mBGColor this"


section \<open>The matrix library and the graphics surface\<close>

definition vec4_smul :: "jsnum \<Rightarrow> jvec4 \<Rightarrow> jvec4" where
  "vec4_smul k v = (case v of (a, b, c, d) \<Rightarrow> (jn_mul k a, jn_mul k b, jn_mul k c, jn_mul k d))"

definition vec4_add :: "jvec4 \<Rightarrow> jvec4 \<Rightarrow> jvec4" where
  "vec4_add u v = (case u of (a, b, c, d) \<Rightarrow> case v of (a', b', c', d') \<Rightarrow>
     (jn_add a a', jn_add b b', jn_add c c', jn_add d d'))"

text \<open>
  Modelled from the spec: the matrix operations of the vector library (\<open>mat4.create\<close>,
  \<open>mat4.scale\<close>, \<open>mat4.translate\<close>), which the camera source calls and does not define.
  The spec's words: start from identity, apply a scale, then apply a translation, with
  the net effect that the translation acts on a point first. So \<open>create\<close> is the
  identity, \<open>scale\<close> multiplies by a scaling on the right (it scales the first three
  columns) and \<open>translate\<close> multiplies by a translation on the right (it replaces the
  last column).
\<close>

definition mat4_create :: mat4 where
  "mat4_create =
     ((Some 1, Some 0, Some 0, Some 0), (Some 0, Some 1, Some 0, Some 0),
      (Some 0, Some 0, Some 1, Some 0), (Some 0, Some 0, Some 0, Some 1))"

definition mat4_scale :: "mat4 \<Rightarrow> jvec3 \<Rightarrow> mat4" where
  "mat4_scale a v = (case a of (c0, c1, c2, c3) \<Rightarrow> case v of (x, y, z) \<Rightarrow>
     (vec4_smul x c0, vec4_smul y c1, vec4_smul z c2, c3))"

definition mat4_translate :: "mat4 \<Rightarrow> jvec3 \<Rightarrow> mat4" where
  "mat4_translate a v = (case a of (c0, c1, c2, c3) \<Rightarrow> case v of (x, y, z) \<Rightarrow>
     (c0, c1, c2,
      vec4_add (vec4_add (vec4_add (vec4_smul x c0) (vec4_smul y c1)) (vec4_smul z c2)) c3))"

text \<open>
  What a matrix does to a point \<open>(x, y, z)\<close>: the product with the column vector
  \<open>(x, y, z, 1)\<close>. This is the meaning of "the matrix maps p to q" in the statements
  below; the camera source does not call it.
\<close>

definition mat4_apply :: "mat4 \<Rightarrow> vec3 \<Rightarrow> jvec4" where
  "mat4_apply m p = (case m of (c0, c1, c2, c3) \<Rightarrow> case p of (x, y, z) \<Rightarrow>
     vec4_add (vec4_add (vec4_add (vec4_smul (Some x) c0) (vec4_smul (Some y) c1))
       (vec4_smul (Some z) c2)) c3)"

text \<open>
  Modelled from the spec: the graphics surface (core/gl.js and the context it hands out),
  with the six operations the camera uses. The surface is the list of calls issued on it
  so far, oldest first. The arguments of a call are derived numbers: the camera passes
  on whatever it reads from its arrays.
\<close>

datatype glcap = SCISSOR_TEST
datatype glmask = COLOR_BUFFER_BIT

datatype glcall =
    GL_viewport jsnum jsnum jsnum jsnum
  | GL_scissor jsnum jsnum jsnum jsnum
  | GL_clearColor jsnum jsnum jsnum jsnum
  | GL_enable glcap
  | GL_clear glmask
  | GL_disable glcap

text \<open>
  The scissor flag after a run of calls that starts with the flag at \<open>e\<close>, and the
  property that the run never clears while the flag is off.
\<close>

fun scissor_after :: "bool \<Rightarrow> glcall list \<Rightarrow> bool" where
  "scissor_after e [] = e"
| "scissor_after e (GL_enable SCISSOR_TEST # cs) = scissor_after True cs"
| "scissor_after e (GL_disable SCISSOR_TEST # cs) = scissor_after False cs"
| "scissor_after e (_ # cs) = scissor_after e cs"

fun clears_under_scissor :: "bool \<Rightarrow> glcall list \<Rightarrow> bool" where
  "clears_under_scissor e [] = True"
| "clears_under_scissor e (GL_enable SCISSOR_TEST # cs) = clears_under_scissor True cs"
| "clears_under_scissor e (GL_disable SCISSOR_TEST # cs) = clears_under_scissor False cs"
| "clears_under_scissor e (GL_clear _ # cs) = (e \<and> clears_under_scissor e cs)"
| "clears_under_scissor e (_ # cs) = clears_under_scissor e cs"


section \<open>camera.js: constructor and draw preparation\<close>

text \<open>
  The constructor. \<open>bound = None\<close> is the call without the fourth argument. The two
  rectangle arrays start empty and are filled by \<open>setViewport\<close>; the background colour
  array is allocated after that (until then the field holds a placeholder that nothing
  reads).
\<close>

definition Camera_new :: "vec2 \<Rightarrow> real \<Rightarrow> ref \<Rightarrow> real option \<Rightarrow> heap \<Rightarrow> (Camera \<times> heap) option" where
  "Camera_new wcCenter wcWidth viewportArray bound h0 =
     (let (vp, h1) = js_alloc [] h0;
          vb = (case bound of None \<Rightarrow> 0 | Some b \<Rightarrow> b);
          (sc, h2) = js_alloc [] h1;
          this0 = \<lparr>mCameraState = \<lparr>cs_center = wcCenter, cs_width = wcWidth\<rparr>,
                   mCameraShake = None,
                   mViewport = vp, mViewportBound = vb, mScissorBound = sc,
                   kCameraZ = 10, mCameraMatrix = mat4_create,
                   mBGColor = 0, mRenderCache = PerRenderCache_new\<rparr>
      in do {
        h3 \<leftarrow> setViewport this0 viewportArray (Some vb) h2;
        let (bg, h4) = js_alloc [0.8, 0.8, 0.8, 1] h3;
        Some (this0\<lparr>mBGColor := bg\<rparr>, h4)
      })"

text \<open>
  Modelled from the spec: the world-to-pixel mapping of the camera (\<open>wcPosToPixel\<close> and
  the fake-Z mapping), which the draw preparation calls and this source file does not
  define: \<open>pixel = (worldPoint - cameraOrgXY) * wcToPixelRatio\<close>, from the cached ratio
  and origin. Both only read the camera.
\<close>

definition fakeZInPixelSpace :: "Camera \<Rightarrow> real \<Rightarrow> jsnum" where
  "fakeZInPixelSpace this z = jn_mul (Some z) (mWCToPixelRatio (mRenderCache this))"

definition wcPosToPixel :: "Camera \<Rightarrow> vec2 \<Rightarrow> jsnum \<times> jsnum" where
  "wcPosToPixel this p =
     (jn_mul (jn_sub (Some (fst p)) (mCameraOrgX (mRenderCache this)))
        (mWCToPixelRatio (mRenderCache this)),
      jn_mul (jn_sub (Some (snd p)) (mCameraOrgY (mRenderCache this)))
        (mWCToPixelRatio (mRenderCache this)))"

text \<open>The center the frame is drawn around (step B of \<open>setViewAndCameraMatrix\<close>).\<close>

definition effectiveCenter :: "Camera \<Rightarrow> vec2" where
  "effectiveCenter this =
     (case mCameraShake this of Some shake \<Rightarrow> shake_getCenter shake | None \<Rightarrow> getWCCenter this)"

text \<open>
  \<open>setViewAndCameraMatrix()\<close>. It reads the heap, appends its six calls to the graphics
  surface \<open>gl\<close> (steps A1 to A4) and returns the camera with its matrix (step B1, B2) and
  its render cache (step B3) rewritten. No step can fail: the calls are issued with
  whatever the arrays hold, and a division by zero only makes the numbers derived from
  it values that are not finite.
\<close>

definition setViewAndCameraMatrix :: "Camera \<Rightarrow> heap \<Rightarrow> glcall list \<Rightarrow> Camera \<times> glcall list" where
  "setViewAndCameraMatrix this h gl0 =
     (let gl1 = gl0 @ [GL_viewport (js_get h (mViewport this) 0) (js_get h (mViewport this) 1)
                         (js_get h (mViewport this) 2) (js_get h (mViewport this) 3)];
          gl2 = gl1 @ [GL_scissor (js_get h (mScissorBound this) 0) (js_get h (mScissorBound this) 1)
                         (js_get h (mScissorBound this) 2) (js_get h (mScissorBound this) 3)];
          gl3 = gl2 @ [GL_clearColor (js_get h (mBGColor this) 0) (js_get h (mBGColor this) 1)
                         (js_get h (mBGColor this) 2) (js_get h (mBGColor this) 3)];
          gl4 = gl3 @ [GL_enable SCISSOR_TEST];
          gl5 = gl4 @ [GL_clear COLOR_BUFFER_BIT];
          gl6 = gl5 @ [GL_disable SCISSOR_TEST];
          center = effectiveCenter this;
          m1 = mat4_scale mat4_create
                 (js_div 2 (getWCWidth this), jn_div (Some 2) (getWCHeight this h),
                  js_div 1 (kCameraZ this));
          m2 = mat4_translate m1
                 (Some (- fst center), Some (- snd center), Some (- kCameraZ this / 2));
          this1 = this\<lparr>mCameraMatrix := m2\<rparr>;
          this2 = this1\<lparr>mRenderCache := (mRenderCache this1)
                    \<lparr>mWCToPixelRatio :=
                       jn_div (js_get h (mViewport this1) eWidth) (Some (getWCWidth this1))\<rparr>\<rparr>;
          this3 = this2\<lparr>mRenderCache := (mRenderCache this2)
                    \<lparr>mCameraOrgX := Some (fst center - (getWCWidth this2 / 2))\<rparr>\<rparr>;
          this4 = this3\<lparr>mRenderCache := (mRenderCache this3)
                    \<lparr>mCameraOrgY :=
                       jn_sub (Some (snd center)) (jn_div (getWCHeight this3 h) (Some 2))\<rparr>\<rparr>;
          p = wcPosToPixel this4 (getWCCenter this4);
          this5 = this4\<lparr>mRenderCache := (mRenderCache this4)
                    \<lparr>mCameraPosInPixelSpace :=
                       (fst p, snd p, fakeZInPixelSpace this4 (kCameraZ this4))\<rparr>\<rparr>
      in (this5, gl6))"

definition getCameraMatrix :: "Camera \<Rightarrow> mat4" where
  "getCameraMatrix this = mCameraMatrix this"


section \<open>Collaborators of the boundary tests\<close>

text \<open>
  Modelled from the spec: the Transform collaborator (the clamp and collide target),
  which exposes \<open>getPosition()\<close> (a mutable point), \<open>getWidth()\<close> and \<open>getHeight()\<close>;
  game_object.js also reads its size and its rotation. The position array belongs to the
  transform alone, so it is a field of the record and a mutation of it returns the
  changed record.
\<close>

record Transform =
  xf_position :: vec2
  xf_width :: real
  xf_height :: real
  xf_rotationInRad :: real

definition getPosition :: "Transform \<Rightarrow> vec2" where
  "getPosition xf = xf_position xf"

definition getWidth :: "Transform \<Rightarrow> real" where
  "getWidth xf = xf_width xf"

definition getHeight :: "Transform \<Rightarrow> real" where
  "getHeight xf = xf_height xf"

definition getSize :: "Transform \<Rightarrow> vec2" where
  "getSize xf = (xf_width xf, xf_height xf)"

definition getRotationInRad :: "Transform \<Rightarrow> real" where
  "getRotationInRad xf = xf_rotationInRad xf"

text \<open>
  Modelled from the spec: the collision status of the bounding-box collaborator
  (\<open>eBoundCollideStatus\<close> of bounding_box.js), a bitmask over inside, collide-top,
  collide-bottom, collide-left and collide-right. A status is the set of its flags:
  \<open>(status & eCollideTop) !== 0\<close> is \<open>eCollideTop \<in> status\<close>, and the status
  \<open>eInside\<close> is the set with that one flag.
\<close>

datatype eBoundCollideFlag = eCollideLeft | eCollideRight | eCollideTop | eCollideBottom | eInsideFlag

type_synonym eBoundCollideStatus = "eBoundCollideFlag set"

definition eInside :: eBoundCollideStatus where
  "eInside = {eInsideFlag}"

text \<open>
  Modelled from the spec: the bounding-box collaborator (bounding_box.js), an
  axis-aligned box constructible from (center, width, height), with a collide-status
  query that reports containment or which edges of this box the other box violates
  (in the spec's scenario: collide-right because the object's right edge at 12 is beyond
  the window's right edge at 10).
\<close>

record BoundingBox =
  bb_center :: vec2
  bb_width :: real
  bb_height :: real

definition BoundingBox_new :: "vec2 \<Rightarrow> real \<Rightarrow> real \<Rightarrow> BoundingBox" where
  "BoundingBox_new centerPos w h = \<lparr>bb_center = centerPos, bb_width = w, bb_height = h\<rparr>"

definition minX :: "BoundingBox \<Rightarrow> real" where
  "minX b = fst (bb_center b) - bb_width b / 2"

definition maxX :: "BoundingBox \<Rightarrow> real" where
  "maxX b = fst (bb_center b) + bb_width b / 2"

definition minY :: "BoundingBox \<Rightarrow> real" where
  "minY b = snd (bb_center b) - bb_height b / 2"

definition maxY :: "BoundingBox \<Rightarrow> real" where
  "maxY b = snd (bb_center b) + bb_height b / 2"

definition boundCollideStatus :: "BoundingBox \<Rightarrow> BoundingBox \<Rightarrow> eBoundCollideStatus" where
  "boundCollideStatus this otherBound =
     (let status = (if minX otherBound < minX this then {eCollideLeft} else {})
                 \<union> (if maxX otherBound > maxX this then {eCollideRight} else {})
                 \<union> (if minY otherBound < minY this then {eCollideBottom} else {})
                 \<union> (if maxY otherBound > maxY this then {eCollideTop} else {})
      in if status = {} then eInside else status)"


section \<open>camera.js: WC bounds, collide and clamp\<close>

definition collideWCBound :: "Camera \<Rightarrow> Transform \<Rightarrow> real \<Rightarrow> heap \<Rightarrow> eBoundCollideStatus option" where
  "collideWCBound this aXform zone hp = do {
     let bbox = BoundingBox_new (getPosition aXform) (getWidth aXform) (getHeight aXform);
     let w = zone * getWCWidth this;
     hgt \<leftarrow> getWCHeight this hp;
     let h = zone * hgt;
     let cameraBound = BoundingBox_new (getWCCenter this) w h;
     Some (boundCollideStatus cameraBound bbox)
   }"

text \<open>
  \<open>clampAtBoundary(aXform, zone)\<close> returns the status together with the transform as
  the call leaves it. The four tests run in the order of the source, each on the position
  the previous ones left.
\<close>

definition clampAtBoundary :: "Camera \<Rightarrow> Transform \<Rightarrow> real \<Rightarrow> heap \<Rightarrow> (eBoundCollideStatus \<times> Transform) option" where
  "clampAtBoundary this aXform zone hp = do {
     status \<leftarrow> collideWCBound this aXform zone hp;
     if status \<noteq> eInside then do {
       let pos = getPosition aXform;
       pos1 \<leftarrow> (if eCollideTop \<in> status then do {
                  hgt \<leftarrow> getWCHeight this hp;
                  Some (fst pos, snd (getWCCenter this) + (zone * hgt / 2) - (getHeight aXform / 2))
                } else Some pos);
       pos2 \<leftarrow> (if eCollideBottom \<in> status then do {
                  hgt \<leftarrow> getWCHeight this hp;
                  Some (fst pos1, snd (getWCCenter this) - (zone * hgt / 2) + (getHeight aXform / 2))
                } else Some pos1);
       let pos3 = (if eCollideRight \<in> status
                   then (fst (getWCCenter this) + (zone * getWCWidth this / 2) - (getWidth aXform / 2), snd pos2)
                   else pos2);
       let pos4 = (if eCollideLeft \<in> status
                   then (fst (getWCCenter this) - (zone * getWCWidth this / 2) + (getWidth aXform / 2), snd pos3)
                   else pos3);
       Some (status, aXform\<lparr>xf_position := pos4\<rparr>)
     } else Some (status, aXform)
   }"


section \<open>game_object.js\<close>

text \<open>
  A renderable, as far as the game object looks at it: its transform, and whether it
  has a \<open>pixelTouches\<close> function (\<open>typeof ren.pixelTouches === "function"\<close>). The calls
  a game object makes on renderables are recorded in the order they are made.
\<close>

record Renderable =
  ren_xform :: Transform
  ren_hasPixelTouches :: bool

datatype ren_call =
    Call_setColorArray Renderable
  | Call_pixelTouches Renderable Renderable vec2

text \<open>
  The front direction of a game object is an array of its own, created by the
  constructor, written in place by \<open>setCurrentFrontDir\<close> and handed out as it is by
  \<open>getCurrentFrontDir\<close>: the field holds a reference into the heap.
\<close>

record 'r GameObject =
  mRenderComponent :: Renderable
  mVisible :: bool
  mCurrentFrontDir :: ref
  mRigidBody :: "'r option"
  mDrawRenderable :: bool
  mDrawRigidShape :: bool

text \<open>\<open>vec2.fromValues(x, y)\<close> of the vector library: a new array with these two elements.\<close>

definition vec2_fromValues :: "real \<Rightarrow> real \<Rightarrow> heap \<Rightarrow> ref \<times> heap" where
  "vec2_fromValues x y h = js_alloc [x, y] h"

definition GameObject_new :: "Renderable \<Rightarrow> heap \<Rightarrow> 'r GameObject \<times> heap" where
  "GameObject_new renderable h =
     (let (d, h1) = vec2_fromValues 0 1 h
      in (\<lparr>mRenderComponent = renderable, mVisible = True,
           mCurrentFrontDir = d, mRigidBody = None,
           mDrawRenderable = True, mDrawRigidShape = False\<rparr>, h1))"

definition getXform :: "'r GameObject \<Rightarrow> Transform" where
  "getXform this = ren_xform (mRenderComponent this)"

definition getBBox :: "'r GameObject \<Rightarrow> BoundingBox" where
  "getBBox this =
     (let xform = getXform this
      in BoundingBox_new (getPosition xform) (getWidth xform) (getHeight xform))"


definition isVisible :: "'r GameObject \<Rightarrow> bool" where
  "isVisible this = mVisible this"




definition getRenderable :: "'r GameObject \<Rightarrow> Renderable" where
  "getRenderable this = mRenderComponent this"


definition getRigidBody :: "'r GameObject \<Rightarrow> 'r option" where
  "getRigidBody this = mRigidBody this"




text \<open>
  \<open>vec2.sub\<close> and \<open>vec2.length\<close> of the vector library, in exact arithmetic: the
  difference of two vectors and the Euclidean length. \<open>front_dir_length\<close> is the length
  of the vector in the array that \<open>getCurrentFrontDir()\<close> returns.
\<close>

definition vec2_sub :: "vec2 \<Rightarrow> vec2 \<Rightarrow> vec2" where
  "vec2_sub a b = (fst a - fst b, snd a - snd b)"

definition vec2_length :: "vec2 \<Rightarrow> real" where
  "vec2_length a = sqrt (fst a * fst a + snd a * snd a)"









text \<open>
  \<open>pixelTouches(otherObj, wcTouchPos)\<close>. Two things it calls are not part of this source
  and are parameters: \<open>intersectsBound\<close>, the intersection query of the bounding box, and
  \<open>renPixelTouches\<close>, the per-pixel test of a renderable that has one. The result is the
  returned boolean and the calls made on the two renderables.
\<close>

definition pixelTouches ::
  "(BoundingBox \<Rightarrow> BoundingBox \<Rightarrow> bool) \<Rightarrow> (Renderable \<Rightarrow> Renderable \<Rightarrow> vec2 \<Rightarrow> bool) \<Rightarrow>
   'r GameObject \<Rightarrow> 's GameObject \<Rightarrow> vec2 \<Rightarrow> bool \<times> ren_call list" where
  "pixelTouches intersectsBound renPixelTouches this otherObj wcTouchPos =
     (let pixelTouch = False;
          myRen = getRenderable this;
          otherRen = getRenderable otherObj
      in if ren_hasPixelTouches myRen \<and> ren_hasPixelTouches otherRen then
           if getRotationInRad (ren_xform myRen) = 0 \<and> getRotationInRad (ren_xform otherRen) = 0 then
             let otherBbox = getBBox otherObj
             in if intersectsBound otherBbox (getBBox this)
                then (renPixelTouches myRen otherRen wcTouchPos,
                      [Call_setColorArray myRen, Call_setColorArray otherRen,
                       Call_pixelTouches myRen otherRen wcTouchPos])
                else (pixelTouch, [])
           else
             let mySize = getSize (ren_xform myRen);
                 otherSize = getSize (ren_xform otherRen);
                 myR = sqrt (0.5 * fst mySize * 0.5 * fst mySize + 0.5 * snd mySize * 0.5 * snd mySize);
                 otherR = sqrt (0.5 * fst otherSize * 0.5 * fst otherSize
                                + 0.5 * snd otherSize * 0.5 * snd otherSize);
                 d = vec2_sub (getPosition (ren_xform myRen)) (getPosition (ren_xform otherRen))
             in if vec2_length d < myR + otherR
                then (renPixelTouches myRen otherRen wcTouchPos,
                      [Call_setColorArray myRen, Call_setColorArray otherRen,
                       Call_pixelTouches myRen otherRen wcTouchPos])
                else (pixelTouch, [])
         else (pixelTouch, []))"


section \<open>Example configurations\<close>

text \<open>
  The camera of the spec's scenario: center (0, 0), width 20, viewport
  \<open>[0, 0, 640, 480]\<close>, no bound. \<open>example_heap\<close> is the heap the constructor leaves when
  the caller's rectangle is the only array before the call.
\<close>

definition example_camera :: Camera where
  "example_camera =
     \<lparr>mCameraState = \<lparr>cs_center = (0, 0), cs_width = 20\<rparr>, mCameraShake = None,
      mViewport = 1, mViewportBound = 0, mScissorBound = 2, kCameraZ = 10,
      mCameraMatrix = mat4_create, mBGColor = 3, mRenderCache = PerRenderCache_new\<rparr>"

definition example_heap :: heap where
  "example_heap = [[0, 0, 640, 480], [0, 0, 640, 480], [0, 0, 640, 480], [0.8, 0.8, 0.8, 1]]"

text \<open>
  The same camera moved to the center (5, 5), and that camera while a shake with current
  center (3, 4) is attached.
\<close>

definition example_offcentre_camera :: Camera where
  "example_offcentre_camera = setWCCenter 5 5 example_camera"

definition example_shaken_camera :: Camera where
  "example_shaken_camera = example_offcentre_camera\<lparr>mCameraShake := Some \<lparr>shake_center = (3, 4)\<rparr>\<rparr>"

text \<open>
  The object of the spec's scenario, at (11, 0) with width 2 and height 2, and an object
  at (0, 0) that is taller (20) than the camera's window (15).
\<close>

definition example_xform :: Transform where
  "example_xform = \<lparr>xf_position = (11, 0), xf_width = 2, xf_height = 2, xf_rotationInRad = 0\<rparr>"

definition tall_xform :: Transform where
  "tall_xform = \<lparr>xf_position = (0, 0), xf_width = 2, xf_height = 20, xf_rotationInRad = 0\<rparr>"

text \<open>
  Two renderables at the same place, one with a \<open>pixelTouches\<close> function and one
  without.
\<close>

definition example_texture_renderable :: Renderable where
  "example_texture_renderable = \<lparr>ren_xform = example_xform, ren_hasPixelTouches = True\<rparr>"

definition example_plain_renderable :: Renderable where
  "example_plain_renderable = \<lparr>ren_xform = example_xform, ren_hasPixelTouches = False\<rparr>"


section \<open>Arrays on the heap\<close>

lemma length_arr_set:
  "length (arr_set xs i v) = (if i < length xs then length xs else Suc (length xs))"
  by (simp add: arr_set_def)

lemma arr_set_fill4:
  assumes "length xs \<le> 4"
  shows "arr_set (arr_set (arr_set (arr_set xs 0 a) (Suc 0) b) 2 c) 3 d = [a, b, c, d]"
proof -
  consider "xs = []" | x0 where "xs = [x0]" | x0 x1 where "xs = [x0, x1]"
    | x0 x1 x2 where "xs = [x0, x1, x2]" | x0 x1 x2 x3 where "xs = [x0, x1, x2, x3]"
  proof -
    have "length xs = 0 \<or> length xs = 1 \<or> length xs = 2 \<or> length xs = 3 \<or> length xs = 4"
      using assms by linarith
    then show ?thesis
      using that by (auto simp: length_Suc_conv numeral_eq_Suc)
  qed
  then show ?thesis
    by cases (simp_all add: arr_set_def numeral_eq_Suc)
qed

lemma arr_set_len1: "Suc 0 \<le> length (arr_set xs 0 a)"
  by (cases xs) (simp_all add: arr_set_def)

lemma arr_set_len2: "2 \<le> length (arr_set (arr_set xs 0 a) (Suc 0) b)"
  using arr_set_len1 [of xs a] by (auto simp: length_arr_set)

lemma arr_set_len3: "3 \<le> length (arr_set (arr_set (arr_set xs 0 a) (Suc 0) b) 2 c)"
  using arr_set_len2 [of xs a b] by (auto simp: length_arr_set)

lemma arr_set_Nil: "arr_set [] i v = [v]"
  by (simp add: arr_set_def)

lemma arr_set_Cons_0: "arr_set (x # xs) 0 v = v # xs"
  by (simp add: arr_set_def)

lemma arr_set_Cons_Suc: "arr_set (x # xs) (Suc i) v = x # arr_set xs i v"
  by (simp add: arr_set_def)

lemma arr_set_Cons_numeral: "arr_set (x # xs) (numeral n) v = x # arr_set xs (pred_numeral n) v"
  by (simp add: numeral_eq_Suc arr_set_Cons_Suc)

lemmas arr_set_simps = arr_set_Nil arr_set_Cons_0 arr_set_Cons_Suc arr_set_Cons_numeral

lemmas heap_step =
  js_get_def js_set_def nth_list_update arr_set_len1 arr_set_len2 arr_set_len3 arr_set_fill4

lemma js_set_other:
  assumes "js_set r i v h = Some h'" and "r' \<noteq> r"
  shows "h' ! r' = h ! r'"
  using assms by (auto simp: js_set_def split: if_splits)

lemma example_camera_constructed:
  "Camera_new (0, 0) 20 0 None [[0, 0, 640, 480]] = Some (example_camera, example_heap)"
  by (simp add: Camera_new_def js_alloc_def setViewport_def Let_def js_get_def js_set_def
      nth_append arr_set_simps example_camera_def example_heap_def)


section \<open>Viewport configuration\<close>

text \<open>
  What \<open>setViewport\<close> leaves on the heap. The caller's rectangle may be any array but the
  camera's own pixel viewport array (which no method hands out); on a camera that the
  constructor has built, the two rectangle arrays hold four elements, and inside the
  constructor they are still empty.
\<close>

lemma setViewport_result:
  assumes rv: "mViewport c < length h" and rs: "mScissorBound c < length h"
    and va: "va < length h" and ne: "mViewport c \<noteq> mScissorBound c" and nva: "va \<noteq> mViewport c"
    and rect: "h ! va = [x, y, w, ht]"
    and lv: "length (h ! mViewport c) \<le> 4" and ls: "length (h ! mScissorBound c) \<le> 4"
    and b: "b = (case bound of None \<Rightarrow> mViewportBound c | Some b' \<Rightarrow> b')"
  shows "setViewport c va bound h =
           Some (h[mViewport c := [x + b, y + b, w - 2 * b, ht - 2 * b], mScissorBound c := [x, y, w, ht]])"
proof (cases "va = mScissorBound c")
  case True
  show ?thesis
    using assms True
    by (simp add: setViewport_def Let_def heap_step arr_set_simps)
next
  case False
  show ?thesis
    using assms False
    by (simp add: setViewport_def Let_def heap_step)
qed

lemma getViewport_result:
  assumes rs: "mScissorBound c < length h" and rect: "h ! mScissorBound c = [x, y, w, ht]"
  shows "getViewport c h = Some (length h, h @ [[x, y, w, ht]])"
  using assms
  by (simp add: getViewport_def js_alloc_def Let_def js_get_def js_set_def nth_append arr_set_simps)

text \<open>
  The first condition on the caller's array is needed: handed the camera's own pixel
  viewport array, \<open>setViewport\<close> reads back the elements it has just written, and the
  scissor rectangle ends up inset as well.
\<close>

lemma setViewport_own_array:
  "setViewport example_camera (mViewport example_camera) (Some 10) example_heap
     = Some [[0, 0, 640, 480], [10, 10, 620, 460], [10, 10, 620, 460], [0.8, 0.8, 0.8, 1]]"
  by (simp add: example_camera_def example_heap_def setViewport_def js_get_def js_set_def
      arr_set_simps Let_def)

text \<open>
  C5. \<open>setViewport([x, y, w, ht], bound)\<close> followed by \<open>getViewport()\<close> returns a newly
  allocated array holding exactly \<open>[x, y, w, ht]\<close>, the rectangle before the inset, while
  the stored pixel viewport is \<open>[x + bound, y + bound, w - 2 bound, ht - 2 bound]\<close>. The
  returned array is neither of the camera's arrays, so no write to it changes the stored
  viewport or the stored scissor rectangle. This holds for every bound, in particular for
  \<open>bound \<ge> 0\<close> with \<open>w, ht > 2 bound\<close>.
\<close>

theorem setViewport_getViewport_roundtrip:
  assumes rv: "mViewport c < length h" and rs: "mScissorBound c < length h"
    and va: "va < length h" and ne: "mViewport c \<noteq> mScissorBound c" and nva: "va \<noteq> mViewport c"
    and rect: "h ! va = [x, y, w, ht]"
    and lv: "length (h ! mViewport c) \<le> 4" and ls: "length (h ! mScissorBound c) \<le> 4"
    and b: "b = (case bound of None \<Rightarrow> mViewportBound c | Some b' \<Rightarrow> b')"
    and h1: "h1 = h[mViewport c := [x + b, y + b, w - 2 * b, ht - 2 * b], mScissorBound c := [x, y, w, ht]]"
  shows "setViewport c va bound h = Some h1
       \<and> h1 ! mViewport c = [x + b, y + b, w - 2 * b, ht - 2 * b]
       \<and> getViewport c h1 = Some (length h1, h1 @ [[x, y, w, ht]])
       \<and> length h1 \<noteq> mViewport c \<and> length h1 \<noteq> mScissorBound c
       \<and> (\<forall>i v h3. js_set (length h1) i v (h1 @ [[x, y, w, ht]]) = Some h3 \<longrightarrow>
             h3 ! mViewport c = h1 ! mViewport c \<and> h3 ! mScissorBound c = h1 ! mScissorBound c)"
proof -
  have sv: "setViewport c va bound h = Some h1"
    unfolding h1 using rv rs va ne nva rect lv ls b by (rule setViewport_result)
  have len: "length h1 = length h"
    by (simp add: h1)
  have vp: "h1 ! mViewport c = [x + b, y + b, w - 2 * b, ht - 2 * b]"
    using rv rs ne by (simp add: h1 nth_list_update)
  have sc: "h1 ! mScissorBound c = [x, y, w, ht]"
    using rs by (simp add: h1)
  have gv: "getViewport c h1 = Some (length h1, h1 @ [[x, y, w, ht]])"
    using rs sc by (intro getViewport_result) (simp_all add: len)
  have fresh: "length h1 \<noteq> mViewport c" "length h1 \<noteq> mScissorBound c"
    using rv rs by (simp_all add: len)
  have frame: "h3 ! mViewport c = h1 ! mViewport c \<and> h3 ! mScissorBound c = h1 ! mScissorBound c"
    if "js_set (length h1) i v (h1 @ [[x, y, w, ht]]) = Some h3" for i v h3
    using js_set_other [OF that, of "mViewport c"] js_set_other [OF that, of "mScissorBound c"]
      fresh rv rs
    by (simp add: nth_append len)
  show ?thesis
    using sv vp gv fresh frame by blast
qed

text \<open>
  The theorem at the rectangle \<open>[10, 20, 300, 200]\<close> with bound 5, on the example camera;
  the caller then overwrites the first element of the array it got back.
\<close>

theorem setViewport_getViewport_roundtrip_witness:
  "setViewport example_camera 4 (Some 5) (example_heap @ [[10, 20, 300, 200]])
     = Some [[0, 0, 640, 480], [15, 25, 290, 190], [10, 20, 300, 200], [0.8, 0.8, 0.8, 1],
             [10, 20, 300, 200]]
   \<and> getViewport example_camera
        [[0, 0, 640, 480], [15, 25, 290, 190], [10, 20, 300, 200], [0.8, 0.8, 0.8, 1],
         [10, 20, 300, 200]]
     = Some (5, [[0, 0, 640, 480], [15, 25, 290, 190], [10, 20, 300, 200], [0.8, 0.8, 0.8, 1],
                 [10, 20, 300, 200], [10, 20, 300, 200]])
   \<and> js_set 5 0 99
        [[0, 0, 640, 480], [15, 25, 290, 190], [10, 20, 300, 200], [0.8, 0.8, 0.8, 1],
         [10, 20, 300, 200], [10, 20, 300, 200]]
     = Some [[0, 0, 640, 480], [15, 25, 290, 190], [10, 20, 300, 200], [0.8, 0.8, 0.8, 1],
             [10, 20, 300, 200], [99, 20, 300, 200]]"
  using setViewport_getViewport_roundtrip [of example_camera "example_heap @ [[10, 20, 300, 200]]"
      4 10 20 300 200 5 "Some 5"
      "[[0, 0, 640, 480], [15, 25, 290, 190], [10, 20, 300, 200], [0.8, 0.8, 0.8, 1],
        [10, 20, 300, 200]]"]
  by (simp add: example_camera_def example_heap_def js_set_def arr_set_simps)


section \<open>World height\<close>

lemma getWCHeight_result:
  assumes "mViewport c < length h" and "h ! mViewport c = [vx, vy, vw, vh]" and "vw \<noteq> 0"
  shows "getWCHeight c h = Some (getWCWidth c * (vh / vw))"
  using assms
  by (simp add: getWCHeight_def getWCWidth_def js_get_def js_div_def eHeight_def eWidth_def)

text \<open>
  C4, as stated, fails. With a bound of 10 on the rectangle \<open>[0, 0, 640, 480]\<close>,
  \<open>getViewport()\<close> reports \<open>[0, 0, 640, 480]\<close>, whose ratio gives a height of
  \<open>20 * 480 / 640 = 15\<close>, but \<open>getWCHeight()\<close> answers \<open>20 * 460 / 620\<close>: it divides the
  sides of the stored pixel viewport, which is the rectangle after the inset.
\<close>

theorem getWCHeight_reported_viewport_counterexample:
  "setViewport example_camera 0 (Some 10) example_heap
     = Some [[0, 0, 640, 480], [10, 10, 620, 460], [0, 0, 640, 480], [0.8, 0.8, 0.8, 1]]
   \<and> getViewport example_camera
        [[0, 0, 640, 480], [10, 10, 620, 460], [0, 0, 640, 480], [0.8, 0.8, 0.8, 1]]
     = Some (4, [[0, 0, 640, 480], [10, 10, 620, 460], [0, 0, 640, 480], [0.8, 0.8, 0.8, 1],
                 [0, 0, 640, 480]])
   \<and> getWCWidth example_camera = 20
   \<and> getWCHeight example_camera
        [[0, 0, 640, 480], [10, 10, 620, 460], [0, 0, 640, 480], [0.8, 0.8, 0.8, 1]]
     = Some (460 / 31)
   \<and> getWCHeight example_camera
        [[0, 0, 640, 480], [10, 10, 620, 460], [0, 0, 640, 480], [0.8, 0.8, 0.8, 1]]
     \<noteq> Some (getWCWidth example_camera * (480 / 640))"
  by (simp add: example_camera_def example_heap_def setViewport_def getViewport_def js_alloc_def
      getWCHeight_def getWCWidth_def cs_getWidth_def js_get_def js_set_def js_div_def
      arr_set_simps nth_append eHeight_def eWidth_def Let_def)

text \<open>
  C4, amended. After \<open>setViewport([x, y, w, ht], bound)\<close> with \<open>w \<noteq> 2 bound\<close>,
  \<open>getWCHeight()\<close> is the current width times \<open>(ht - 2 bound) / (w - 2 bound)\<close>, the ratio
  of the stored pixel viewport, whatever width is set at the time of the call (the height
  is computed at each call, from the width and the viewport of that moment). With
  \<open>bound = 0\<close> that is the width times \<open>ht / w\<close>, the ratio of the rectangle
  \<open>getViewport()\<close> reports.
\<close>

theorem getWCHeight_inset_ratio:
  assumes rv: "mViewport c < length h" and rs: "mScissorBound c < length h"
    and va: "va < length h" and ne: "mViewport c \<noteq> mScissorBound c" and nva: "va \<noteq> mViewport c"
    and rect: "h ! va = [x, y, w, ht]"
    and lv: "length (h ! mViewport c) \<le> 4" and ls: "length (h ! mScissorBound c) \<le> 4"
    and b: "b = (case bound of None \<Rightarrow> mViewportBound c | Some b' \<Rightarrow> b')"
    and nz: "w - 2 * b \<noteq> 0"
    and h1: "setViewport c va bound h = Some h1"
  shows "getWCHeight c h1 = Some (getWCWidth c * ((ht - 2 * b) / (w - 2 * b)))
       \<and> (\<forall>W. getWCHeight (setWCWidth W c) h1 = Some (W * ((ht - 2 * b) / (w - 2 * b))))
       \<and> map_option (\<lambda>(out, h2). h2 ! out) (getViewport c h1) = Some [x, y, w, ht]
       \<and> (b = 0 \<longrightarrow> getWCHeight c h1 = Some (getWCWidth c * (ht / w)))"
proof -
  have eq: "h1 = h[mViewport c := [x + b, y + b, w - 2 * b, ht - 2 * b], mScissorBound c := [x, y, w, ht]]"
    using setViewport_result [OF rv rs va ne nva rect lv ls b] h1 by simp
  have len: "length h1 = length h"
    by (simp add: eq)
  have vp: "h1 ! mViewport c = [x + b, y + b, w - 2 * b, ht - 2 * b]"
    using rv rs ne by (simp add: eq nth_list_update)
  have sc: "h1 ! mScissorBound c = [x, y, w, ht]"
    using rs by (simp add: eq)
  have hgt: "getWCHeight c' h1 = Some (getWCWidth c' * ((ht - 2 * b) / (w - 2 * b)))"
    if "mViewport c' = mViewport c" for c'
    using getWCHeight_result [of c' h1 "x + b" "y + b" "w - 2 * b" "ht - 2 * b"] rv vp nz that
    by (simp add: len)
  have 1: "getWCHeight c h1 = Some (getWCWidth c * ((ht - 2 * b) / (w - 2 * b)))"
    by (rule hgt) simp
  have 2: "getWCHeight (setWCWidth W c) h1 = Some (W * ((ht - 2 * b) / (w - 2 * b)))" for W
    using hgt [of "setWCWidth W c"]
    by (simp add: setWCWidth_def getWCWidth_def cs_setWidth_def cs_getWidth_def)
  have 3: "map_option (\<lambda>(out, h2). h2 ! out) (getViewport c h1) = Some [x, y, w, ht]"
    using getViewport_result [of c h1 x y w ht] rs sc by (simp add: len [symmetric])
  have 4: "b = 0 \<longrightarrow> getWCHeight c h1 = Some (getWCWidth c * (ht / w))"
    using 1 by simp
  show ?thesis
    using 1 2 3 4 by blast
qed

theorem getWCHeight_inset_ratio_witness:
  "getWCHeight example_camera
     [[0, 0, 640, 480], [10, 10, 620, 460], [0, 0, 640, 480], [0.8, 0.8, 0.8, 1]]
     = Some (20 * (460 / 620))
   \<and> getWCHeight (setWCWidth 62 example_camera)
        [[0, 0, 640, 480], [10, 10, 620, 460], [0, 0, 640, 480], [0.8, 0.8, 0.8, 1]]
     = Some 46
   \<and> map_option (\<lambda>(out, h2). h2 ! out)
        (getViewport example_camera
           [[0, 0, 640, 480], [10, 10, 620, 460], [0, 0, 640, 480], [0.8, 0.8, 0.8, 1]])
     = Some [0, 0, 640, 480]"
proof -
  have sv: "setViewport example_camera 0 (Some 10) example_heap
     = Some [[0, 0, 640, 480], [10, 10, 620, 460], [0, 0, 640, 480], [0.8, 0.8, 0.8, 1]]"
    by (simp add: example_camera_def example_heap_def setViewport_def js_get_def js_set_def
        arr_set_simps Let_def)
  have "getWCWidth example_camera = 20"
    by (simp add: example_camera_def getWCWidth_def cs_getWidth_def)
  then show ?thesis
    using getWCHeight_inset_ratio [of example_camera example_heap 0 0 0 640 480 10 "Some 10", OF _ _ _ _ _ _ _ _ _ _ sv]
    by (simp add: example_camera_def example_heap_def)
qed


section \<open>Draw preparation\<close>

lemma jn_add_Some: "jn_add (Some a) (Some b) = Some (a + b)"
  by (simp add: jn_add_def)

lemma jn_sub_Some: "jn_sub (Some a) (Some b) = Some (a - b)"
  by (simp add: jn_sub_def)

lemma jn_mul_Some: "jn_mul (Some a) (Some b) = Some (a * b)"
  by (simp add: jn_mul_def)

lemma jn_div_Some: "jn_div (Some a) (Some b) = js_div a b"
  by (simp add: jn_div_def)

lemmas jn_simps = jn_add_Some jn_sub_Some jn_mul_Some jn_div_Some

text \<open>
  The definitions a statement about \<open>setViewAndCameraMatrix\<close> unfolds: the function
  itself and the getters it calls.
\<close>

lemmas draw_prep_unfold =
  setViewAndCameraMatrix_def Let_def effectiveCenter_def getWCCenter_def cs_getCenter_def
  shake_getCenter_def getWCWidth_def cs_getWidth_def

lemma mat4_apply_scale_translate:
  "mat4_apply (mat4_translate (mat4_scale mat4_create (Some sx, Some sy, Some sz))
                 (Some tx, Some ty, Some tz)) (px, py, pz)
     = (Some (sx * (px + tx)), Some (sy * (py + ty)), Some (sz * (pz + tz)), Some 1)"
  by (simp add: mat4_apply_def mat4_translate_def mat4_scale_def mat4_create_def
      vec4_add_def vec4_smul_def jn_simps algebra_simps)

text \<open>
  C1. After \<open>setViewAndCameraMatrix()\<close> on a camera with positive width and a positive
  pixel viewport, the camera matrix is the scale by \<open>(2 / W, 2 / H, 1 / Z)\<close> composed with
  the translation by \<open>(- ec.x, - ec.y, - Z / 2)\<close>: it sends a point \<open>p\<close> to the scaled
  \<open>p\<close> moved by the translation. Here \<open>W\<close> is the stored width, \<open>H\<close> the derived height
  and \<open>ec\<close> the effective center: the center the shake reports when one is attached, the
  stored center of the camera state otherwise. So the matrix maps the effective center
  to \<open>x = 0, y = 0\<close> at every depth (and to the origin at depth \<open>Z / 2\<close>), and the
  point half a width to the right of it to \<open>x = 1\<close>.
\<close>

theorem camera_matrix_scale_translate:
  assumes vp: "mViewport c < length h" "h ! mViewport c = [vx, vy, vw, vh]"
    and pos: "0 < cs_width (mCameraState c)" "0 < vw" "0 < vh" "kCameraZ c \<noteq> 0"
    and W: "W = cs_width (mCameraState c)" and H: "H = W * (vh / vw)" and Z: "Z = kCameraZ c"
    and ec: "ec = (case mCameraShake c of Some shake \<Rightarrow> shake_center shake
                   | None \<Rightarrow> cs_center (mCameraState c))"
    and M: "M = getCameraMatrix (fst (setViewAndCameraMatrix c h gl))"
  shows "M = mat4_translate (mat4_scale mat4_create (Some (2 / W), Some (2 / H), Some (1 / Z)))
               (Some (- fst ec), Some (- snd ec), Some (- Z / 2))
       \<and> getWCWidth c = W
       \<and> getWCHeight c h = Some H
       \<and> (\<forall>px py pz. mat4_apply M (px, py, pz)
             = (Some (2 / W * (px - fst ec)), Some (2 / H * (py - snd ec)),
                Some (1 / Z * (pz - Z / 2)), Some 1))
       \<and> (\<forall>pz. mat4_apply M (fst ec, snd ec, pz) = (Some 0, Some 0, Some ((pz - Z / 2) / Z), Some 1))
       \<and> mat4_apply M (fst ec, snd ec, Z / 2) = (Some 0, Some 0, Some 0, Some 1)
       \<and> (\<forall>pz. fst (mat4_apply M (fst ec + W / 2, snd ec, pz)) = Some 1)"
proof -
  have Wnz: "W \<noteq> 0" and Znz: "Z \<noteq> 0"
    using pos by (simp_all add: W Z)
  have width: "getWCWidth c = W"
    by (simp add: W getWCWidth_def cs_getWidth_def)
  have hgt: "getWCHeight c h = Some H"
    using getWCHeight_result [OF vp] pos by (simp add: H width)
  have Hnz: "H \<noteq> 0"
    using pos by (simp add: H W)
  have mat: "M = mat4_translate (mat4_scale mat4_create (Some (2 / W), Some (2 / H), Some (1 / Z)))
               (Some (- fst ec), Some (- snd ec), Some (- Z / 2))"
    using Wnz Hnz Znz hgt
    by (simp add: M getCameraMatrix_def draw_prep_unfold ec W Z jn_simps js_div_def
        split: option.split)
  have app: "mat4_apply M (px, py, pz)
             = (Some (2 / W * (px - fst ec)), Some (2 / H * (py - snd ec)),
                Some (1 / Z * (pz - Z / 2)), Some 1)" for px py pz
    by (simp add: mat mat4_apply_scale_translate)
  have c0: "mat4_apply M (fst ec, snd ec, pz) = (Some 0, Some 0, Some ((pz - Z / 2) / Z), Some 1)" for pz
    by (simp add: app)
  have c1: "mat4_apply M (fst ec, snd ec, Z / 2) = (Some 0, Some 0, Some 0, Some 1)"
    by (simp add: app)
  have c2: "fst (mat4_apply M (fst ec + W / 2, snd ec, pz)) = Some 1" for pz
    using Wnz by (simp add: app)
  show ?thesis
    using mat width hgt app c0 c1 c2 by blast
qed

lemmas example_camera_fields =
  example_camera_def example_offcentre_camera_def example_shaken_camera_def example_heap_def
  setWCCenter_def setWCWidth_def cs_setCenter_def cs_setWidth_def

lemmas mat4_eval =
  mat4_apply_def mat4_translate_def mat4_scale_def mat4_create_def vec4_add_def vec4_smul_def
  jn_simps

lemmas draw_prep_eval =
  getCameraMatrix_def draw_prep_unfold example_camera_fields getWCHeight_def js_get_def
  js_div_def eWidth_def eHeight_def mat4_eval

text \<open>
  The theorem on the camera at (5, 5), width 20, height 15, depth constant 10, without
  a shake and with the shake at (3, 4). The first matrix is translated by (-5, -5): it
  sends (5, 5) to \<open>x = 0, y = 0\<close> and (15, 5) to \<open>x = 1\<close>. The second is translated by
  (-3, -4): it sends (3, 4) to \<open>x = 0, y = 0\<close> and (13, 4) to \<open>x = 1\<close>.
\<close>

theorem camera_matrix_scale_translate_witness:
  "getCameraMatrix (fst (setViewAndCameraMatrix example_offcentre_camera example_heap []))
     = ((Some (1 / 10), Some 0, Some 0, Some 0), (Some 0, Some (2 / 15), Some 0, Some 0),
        (Some 0, Some 0, Some (1 / 10), Some 0),
        (Some (- 1 / 2), Some (- 2 / 3), Some (- 1 / 2), Some 1))
   \<and> mat4_apply (getCameraMatrix (fst (setViewAndCameraMatrix example_offcentre_camera example_heap [])))
        (5, 5, 5) = (Some 0, Some 0, Some 0, Some 1)
   \<and> fst (mat4_apply (getCameraMatrix (fst (setViewAndCameraMatrix example_offcentre_camera example_heap [])))
        (15, 5, 0)) = Some 1
   \<and> getCameraMatrix (fst (setViewAndCameraMatrix example_shaken_camera example_heap []))
     = ((Some (1 / 10), Some 0, Some 0, Some 0), (Some 0, Some (2 / 15), Some 0, Some 0),
        (Some 0, Some 0, Some (1 / 10), Some 0),
        (Some (- 3 / 10), Some (- 8 / 15), Some (- 1 / 2), Some 1))
   \<and> mat4_apply (getCameraMatrix (fst (setViewAndCameraMatrix example_shaken_camera example_heap [])))
        (3, 4, 5) = (Some 0, Some 0, Some 0, Some 1)
   \<and> fst (mat4_apply (getCameraMatrix (fst (setViewAndCameraMatrix example_shaken_camera example_heap [])))
        (13, 4, 0)) = Some 1"
proof -
  let ?M1 = "getCameraMatrix (fst (setViewAndCameraMatrix example_offcentre_camera example_heap []))"
  let ?M2 = "getCameraMatrix (fst (setViewAndCameraMatrix example_shaken_camera example_heap []))"
  have vp1: "mViewport example_offcentre_camera < length example_heap"
      "example_heap ! mViewport example_offcentre_camera = [0, 0, 640, 480]"
    and pos1: "0 < cs_width (mCameraState example_offcentre_camera)" "(0::real) < 640" "(0::real) < 480"
      "kCameraZ example_offcentre_camera \<noteq> 0"
    and W1: "20 = cs_width (mCameraState example_offcentre_camera)"
    and Z1: "10 = kCameraZ example_offcentre_camera"
    and ec1: "(5, 5) = (case mCameraShake example_offcentre_camera of Some shake \<Rightarrow> shake_center shake
                        | None \<Rightarrow> cs_center (mCameraState example_offcentre_camera))"
    by (simp_all add: example_camera_fields)
  have vp2: "mViewport example_shaken_camera < length example_heap"
      "example_heap ! mViewport example_shaken_camera = [0, 0, 640, 480]"
    and pos2: "0 < cs_width (mCameraState example_shaken_camera)" "(0::real) < 640" "(0::real) < 480"
      "kCameraZ example_shaken_camera \<noteq> 0"
    and W2: "20 = cs_width (mCameraState example_shaken_camera)"
    and Z2: "10 = kCameraZ example_shaken_camera"
    and ec2: "(3, 4) = (case mCameraShake example_shaken_camera of Some shake \<Rightarrow> shake_center shake
                        | None \<Rightarrow> cs_center (mCameraState example_shaken_camera))"
    by (simp_all add: example_camera_fields)
  have H: "(15::real) = 20 * (480 / 640)"
    by simp
  note t1 = camera_matrix_scale_translate [OF vp1 pos1 W1 H Z1 ec1 refl, of "[]"]
  note t2 = camera_matrix_scale_translate [OF vp2 pos2 W2 H Z2 ec2 refl, of "[]"]
  have m1: "?M1 = ((Some (1 / 10), Some 0, Some 0, Some 0), (Some 0, Some (2 / 15), Some 0, Some 0),
        (Some 0, Some 0, Some (1 / 10), Some 0),
        (Some (- 1 / 2), Some (- 2 / 3), Some (- 1 / 2), Some 1))"
    by (simp add: draw_prep_eval)
  have m2: "?M2 = ((Some (1 / 10), Some 0, Some 0, Some 0), (Some 0, Some (2 / 15), Some 0, Some 0),
        (Some 0, Some 0, Some (1 / 10), Some 0),
        (Some (- 3 / 10), Some (- 8 / 15), Some (- 1 / 2), Some 1))"
    by (simp add: draw_prep_eval)
  from t1 have "mat4_apply ?M1 (fst (5::real, 5::real), snd (5::real, 5::real), 10 / 2)
                  = (Some 0, Some 0, Some 0, Some 1)"
    and "fst (mat4_apply ?M1 (fst (5::real, 5::real) + 20 / 2, snd (5::real, 5::real), 0)) = Some 1"
    by blast+
  then have a1: "mat4_apply ?M1 (5, 5, 5) = (Some 0, Some 0, Some 0, Some 1)"
      "fst (mat4_apply ?M1 (15, 5, 0)) = Some 1"
    by simp_all
  from t2 have "mat4_apply ?M2 (fst (3::real, 4::real), snd (3::real, 4::real), 10 / 2)
                  = (Some 0, Some 0, Some 0, Some 1)"
    and "fst (mat4_apply ?M2 (fst (3::real, 4::real) + 20 / 2, snd (3::real, 4::real), 0)) = Some 1"
    by blast+
  then have a2: "mat4_apply ?M2 (3, 4, 5) = (Some 0, Some 0, Some 0, Some 1)"
      "fst (mat4_apply ?M2 (13, 4, 0)) = Some 1"
    by simp_all
  show ?thesis
    using m1 m2 a1 a2 by blast
qed

text \<open>
  C6. For every camera, the matrix that \<open>setViewAndCameraMatrix()\<close> builds (and the
  origin it caches) is translated by the center the shake collaborator reports when one
  is attached, and by the stored center of the camera state otherwise; on a camera
  with nonzero width, height and depth constant that center is the point the matrix
  sends to \<open>x = 0, y = 0\<close>. The call leaves the camera state and the shake alone:
  \<open>getWCCenter()\<close> answers the stored center before and after, with or without a
  shake, whatever the width and the viewport are.
\<close>

theorem draw_prep_effective_center:
  assumes c': "c' = fst (setViewAndCameraMatrix c h gl)"
    and ec: "ec = (case mCameraShake c of Some shake \<Rightarrow> shake_center shake
                   | None \<Rightarrow> cs_center (mCameraState c))"
    and W: "W = cs_width (mCameraState c)" and Z: "Z = kCameraZ c"
  shows "getCameraMatrix c'
           = mat4_translate
               (mat4_scale mat4_create (js_div 2 W, jn_div (Some 2) (getWCHeight c h), js_div 1 Z))
               (Some (- fst ec), Some (- snd ec), Some (- Z / 2))
       \<and> mCameraOrgX (mRenderCache c') = Some (fst ec - W / 2)
       \<and> mCameraState c' = mCameraState c
       \<and> mCameraShake c' = mCameraShake c
       \<and> getWCCenter c = cs_center (mCameraState c)
       \<and> getWCCenter c' = cs_center (mCameraState c)
       \<and> (\<forall>H. getWCHeight c h = Some H \<and> W \<noteq> 0 \<and> H \<noteq> 0 \<and> Z \<noteq> 0 \<longrightarrow>
             (\<forall>px py pz. mat4_apply (getCameraMatrix c') (px, py, pz)
                = (Some (2 / W * (px - fst ec)), Some (2 / H * (py - snd ec)),
                   Some (1 / Z * (pz - Z / 2)), Some 1))
             \<and> (\<forall>pz. mat4_apply (getCameraMatrix c') (fst ec, snd ec, pz)
                = (Some 0, Some 0, Some ((pz - Z / 2) / Z), Some 1)))"
proof -
  have mat: "getCameraMatrix c'
           = mat4_translate
               (mat4_scale mat4_create (js_div 2 W, jn_div (Some 2) (getWCHeight c h), js_div 1 Z))
               (Some (- fst ec), Some (- snd ec), Some (- Z / 2))"
    by (simp add: c' getCameraMatrix_def draw_prep_unfold ec W Z split: option.split)
  have org: "mCameraOrgX (mRenderCache c') = Some (fst ec - W / 2)"
    by (simp add: c' draw_prep_unfold ec W split: option.split)
  have st: "mCameraState c' = mCameraState c" and sh: "mCameraShake c' = mCameraShake c"
    by (simp_all add: c' setViewAndCameraMatrix_def Let_def)
  have g: "getWCCenter c = cs_center (mCameraState c)" "getWCCenter c' = cs_center (mCameraState c)"
    by (simp_all add: getWCCenter_def cs_getCenter_def st)
  have app: "mat4_apply (getCameraMatrix c') (px, py, pz)
                = (Some (2 / W * (px - fst ec)), Some (2 / H * (py - snd ec)),
                   Some (1 / Z * (pz - Z / 2)), Some 1)"
    if "getWCHeight c h = Some H" "W \<noteq> 0" "H \<noteq> 0" "Z \<noteq> 0" for H px py pz
    using that by (simp add: mat jn_simps js_div_def mat4_apply_scale_translate)
  have orig: "mat4_apply (getCameraMatrix c') (fst ec, snd ec, pz)
                = (Some 0, Some 0, Some ((pz - Z / 2) / Z), Some 1)"
    if "getWCHeight c h = Some H" "W \<noteq> 0" "H \<noteq> 0" "Z \<noteq> 0" for H pz
    using app [OF that] by simp
  show ?thesis
    using mat org st sh g app orig by blast
qed

text \<open>
  With the shake at (3, 4) on the camera stored at (5, 5), the matrix is translated by
  (-3, -4) and sends (3, 4) to \<open>x = 0, y = 0\<close>; without the shake it is translated by
  (-5, -5). The stored center is (5, 5) after either call, also when the width is 0.
\<close>

theorem draw_prep_effective_center_witness:
  "getCameraMatrix (fst (setViewAndCameraMatrix example_shaken_camera example_heap []))
     = ((Some (1 / 10), Some 0, Some 0, Some 0), (Some 0, Some (2 / 15), Some 0, Some 0),
        (Some 0, Some 0, Some (1 / 10), Some 0),
        (Some (- 3 / 10), Some (- 8 / 15), Some (- 1 / 2), Some 1))
   \<and> mat4_apply (getCameraMatrix (fst (setViewAndCameraMatrix example_shaken_camera example_heap [])))
        (3, 4, 0) = (Some 0, Some 0, Some (- 1 / 2), Some 1)
   \<and> getWCCenter (fst (setViewAndCameraMatrix example_shaken_camera example_heap [])) = (5, 5)
   \<and> getCameraMatrix (fst (setViewAndCameraMatrix example_offcentre_camera example_heap []))
     = ((Some (1 / 10), Some 0, Some 0, Some 0), (Some 0, Some (2 / 15), Some 0, Some 0),
        (Some 0, Some 0, Some (1 / 10), Some 0),
        (Some (- 1 / 2), Some (- 2 / 3), Some (- 1 / 2), Some 1))
   \<and> getWCCenter (fst (setViewAndCameraMatrix example_offcentre_camera example_heap [])) = (5, 5)
   \<and> getWCCenter (fst (setViewAndCameraMatrix (setWCWidth 0 example_offcentre_camera) example_heap []))
     = (5, 5)"
proof -
  have hgt: "getWCHeight example_shaken_camera example_heap = Some 15"
      "getWCHeight example_offcentre_camera example_heap = Some 15"
    by (simp_all add: example_camera_fields getWCHeight_def js_get_def js_div_def
        eWidth_def eHeight_def cs_getWidth_def)
  have ec1: "(3, 4) = (case mCameraShake example_shaken_camera of Some shake \<Rightarrow> shake_center shake
                       | None \<Rightarrow> cs_center (mCameraState example_shaken_camera))"
    and ec2: "(5, 5) = (case mCameraShake example_offcentre_camera of Some shake \<Rightarrow> shake_center shake
                        | None \<Rightarrow> cs_center (mCameraState example_offcentre_camera))"
    and ec3: "(5, 5) = (case mCameraShake (setWCWidth 0 example_offcentre_camera) of
                          Some shake \<Rightarrow> shake_center shake
                        | None \<Rightarrow> cs_center (mCameraState (setWCWidth 0 example_offcentre_camera)))"
    and W1: "20 = cs_width (mCameraState example_shaken_camera)"
    and W2: "20 = cs_width (mCameraState example_offcentre_camera)"
    and W3: "0 = cs_width (mCameraState (setWCWidth 0 example_offcentre_camera))"
    and Z1: "10 = kCameraZ example_shaken_camera"
    and Z2: "10 = kCameraZ example_offcentre_camera"
    and Z3: "10 = kCameraZ (setWCWidth 0 example_offcentre_camera)"
    by (simp_all add: example_camera_fields)
  note t1 = draw_prep_effective_center [OF refl ec1 W1 Z1, of example_heap "[]"]
  note t2 = draw_prep_effective_center [OF refl ec2 W2 Z2, of example_heap "[]"]
  note t3 = draw_prep_effective_center [OF refl ec3 W3 Z3, of example_heap "[]"]
  have m1: "getCameraMatrix (fst (setViewAndCameraMatrix example_shaken_camera example_heap []))
     = ((Some (1 / 10), Some 0, Some 0, Some 0), (Some 0, Some (2 / 15), Some 0, Some 0),
        (Some 0, Some 0, Some (1 / 10), Some 0),
        (Some (- 3 / 10), Some (- 8 / 15), Some (- 1 / 2), Some 1))"
    by (simp add: draw_prep_eval)
  have a1: "mat4_apply (getCameraMatrix (fst (setViewAndCameraMatrix example_shaken_camera example_heap [])))
        (3, 4, 0) = (Some 0, Some 0, Some (- 1 / 2), Some 1)"
    by (simp add: m1 mat4_eval)
  have g1: "getWCCenter (fst (setViewAndCameraMatrix example_shaken_camera example_heap [])) = (5, 5)"
    using t1 by (simp add: example_camera_fields)
  have m2: "getCameraMatrix (fst (setViewAndCameraMatrix example_offcentre_camera example_heap []))
     = ((Some (1 / 10), Some 0, Some 0, Some 0), (Some 0, Some (2 / 15), Some 0, Some 0),
        (Some 0, Some 0, Some (1 / 10), Some 0),
        (Some (- 1 / 2), Some (- 2 / 3), Some (- 1 / 2), Some 1))"
    by (simp add: draw_prep_eval)
  have g2: "getWCCenter (fst (setViewAndCameraMatrix example_offcentre_camera example_heap [])) = (5, 5)"
    using t2 by (simp add: example_camera_fields)
  have g3: "getWCCenter (fst (setViewAndCameraMatrix (setWCWidth 0 example_offcentre_camera) example_heap []))
     = (5, 5)"
    using t3 by (simp add: example_camera_fields)
  show ?thesis
    using m1 a1 g1 m2 g2 g3 by blast
qed

lemma scissor_after_append:
  "scissor_after e (xs @ ys) = scissor_after (scissor_after e xs) ys"
  by (induction e xs rule: scissor_after.induct) simp_all

lemma clears_under_scissor_append:
  "clears_under_scissor e (xs @ ys)
     = (clears_under_scissor e xs \<and> clears_under_scissor (scissor_after e xs) ys)"
  by (induction e xs rule: clears_under_scissor.induct) simp_all

text \<open>
  C7. Every call of \<open>setViewAndCameraMatrix()\<close>, on every camera, appends to the graphics
  surface exactly six calls, in this order: the pixel viewport with the four elements of
  the stored pixel viewport, the scissor with the four elements of the stored scissor
  rectangle, the clear colour with the four elements of the stored colour array, enable
  scissor test, clear colour buffer, disable scissor test. Whatever the scissor flag was
  before, the clear happens with the flag on and the flag is off afterwards; a surface
  that never cleared with the flag off still has not after the call. On a camera
  configured by \<open>setViewport([x, y, w, ht], bound)\<close> and \<open>setBackgroundColor([r, g, bl, a])\<close>
  the first three calls carry the inset rectangle, the rectangle before the inset and the
  four components \<open>r, g, bl, a\<close>.
\<close>

theorem draw_prep_gl_order:
  assumes rv: "mViewport c < length h" and rs: "mScissorBound c < length h"
    and va: "va < length h" and ne: "mViewport c \<noteq> mScissorBound c" and nva: "va \<noteq> mViewport c"
    and rect: "h ! va = [x, y, w, ht]"
    and lv: "length (h ! mViewport c) \<le> 4" and ls: "length (h ! mScissorBound c) \<le> 4"
    and b: "b = (case bound of None \<Rightarrow> mViewportBound c | Some b' \<Rightarrow> b')"
    and col: "col < length h" "col \<noteq> mViewport c" "col \<noteq> mScissorBound c" "h ! col = [r, g, bl, a]"
    and h1: "setViewport c va bound h = Some h1"
    and calls: "calls = [GL_viewport (Some (x + b)) (Some (y + b)) (Some (w - 2 * b)) (Some (ht - 2 * b)),
                         GL_scissor (Some x) (Some y) (Some w) (Some ht),
                         GL_clearColor (Some r) (Some g) (Some bl) (Some a),
                         GL_enable SCISSOR_TEST, GL_clear COLOR_BUFFER_BIT, GL_disable SCISSOR_TEST]"
  shows "snd (setViewAndCameraMatrix (setBackgroundColor col c) h1 gl) = gl @ calls
       \<and> (\<forall>c2 h2 gl2. \<exists>v s k.
             snd (setViewAndCameraMatrix c2 h2 gl2)
               = gl2 @ [v, s, k, GL_enable SCISSOR_TEST, GL_clear COLOR_BUFFER_BIT,
                        GL_disable SCISSOR_TEST]
             \<and> v = GL_viewport (js_get h2 (mViewport c2) 0) (js_get h2 (mViewport c2) 1)
                     (js_get h2 (mViewport c2) 2) (js_get h2 (mViewport c2) 3)
             \<and> s = GL_scissor (js_get h2 (mScissorBound c2) 0) (js_get h2 (mScissorBound c2) 1)
                     (js_get h2 (mScissorBound c2) 2) (js_get h2 (mScissorBound c2) 3)
             \<and> k = GL_clearColor (js_get h2 (mBGColor c2) 0) (js_get h2 (mBGColor c2) 1)
                     (js_get h2 (mBGColor c2) 2) (js_get h2 (mBGColor c2) 3)
             \<and> (\<forall>e. clears_under_scissor e
                       [v, s, k, GL_enable SCISSOR_TEST, GL_clear COLOR_BUFFER_BIT,
                        GL_disable SCISSOR_TEST])
             \<and> (\<forall>e. \<not> scissor_after e
                       [v, s, k, GL_enable SCISSOR_TEST, GL_clear COLOR_BUFFER_BIT,
                        GL_disable SCISSOR_TEST])
             \<and> (\<forall>e. clears_under_scissor e gl2 \<longrightarrow>
                     clears_under_scissor e (snd (setViewAndCameraMatrix c2 h2 gl2))))"
proof -
  let ?c = "setBackgroundColor col c"
  have eq: "h1 = h[mViewport c := [x + b, y + b, w - 2 * b, ht - 2 * b], mScissorBound c := [x, y, w, ht]]"
    using setViewport_result [OF rv rs va ne nva rect lv ls b] h1 by simp
  have vp: "mViewport ?c < length h1" "h1 ! mViewport ?c = [x + b, y + b, w - 2 * b, ht - 2 * b]"
    using rv rs ne by (simp_all add: eq nth_list_update setBackgroundColor_def)
  have sc: "mScissorBound ?c < length h1" "h1 ! mScissorBound ?c = [x, y, w, ht]"
    using rs by (simp_all add: eq setBackgroundColor_def)
  have bg: "mBGColor ?c < length h1" "h1 ! mBGColor ?c = [r, g, bl, a]"
    using col by (simp_all add: eq setBackgroundColor_def)
  have 1: "snd (setViewAndCameraMatrix ?c h1 gl) = gl @ calls"
    using vp sc bg by (simp add: setViewAndCameraMatrix_def Let_def calls js_get_def)
  have 2: "\<exists>v s k.
             snd (setViewAndCameraMatrix c2 h2 gl2)
               = gl2 @ [v, s, k, GL_enable SCISSOR_TEST, GL_clear COLOR_BUFFER_BIT,
                        GL_disable SCISSOR_TEST]
             \<and> v = GL_viewport (js_get h2 (mViewport c2) 0) (js_get h2 (mViewport c2) 1)
                     (js_get h2 (mViewport c2) 2) (js_get h2 (mViewport c2) 3)
             \<and> s = GL_scissor (js_get h2 (mScissorBound c2) 0) (js_get h2 (mScissorBound c2) 1)
                     (js_get h2 (mScissorBound c2) 2) (js_get h2 (mScissorBound c2) 3)
             \<and> k = GL_clearColor (js_get h2 (mBGColor c2) 0) (js_get h2 (mBGColor c2) 1)
                     (js_get h2 (mBGColor c2) 2) (js_get h2 (mBGColor c2) 3)
             \<and> (\<forall>e. clears_under_scissor e
                       [v, s, k, GL_enable SCISSOR_TEST, GL_clear COLOR_BUFFER_BIT,
                        GL_disable SCISSOR_TEST])
             \<and> (\<forall>e. \<not> scissor_after e
                       [v, s, k, GL_enable SCISSOR_TEST, GL_clear COLOR_BUFFER_BIT,
                        GL_disable SCISSOR_TEST])
             \<and> (\<forall>e. clears_under_scissor e gl2 \<longrightarrow>
                     clears_under_scissor e (snd (setViewAndCameraMatrix c2 h2 gl2)))"
    for c2 h2 gl2
    by (simp add: setViewAndCameraMatrix_def Let_def clears_under_scissor_append)
  show ?thesis
    using 1 2 by blast
qed

text \<open>
  The spec's scenario: background colour (0.1, 0.2, 0.3, 1.0), here with a bound of 10 on
  the rectangle \<open>[0, 0, 640, 480]\<close>; and the same six calls on a camera of width 0.
\<close>

theorem draw_prep_gl_order_witness:
  "snd (setViewAndCameraMatrix (setBackgroundColor 4 example_camera)
        [[0, 0, 640, 480], [10, 10, 620, 460], [0, 0, 640, 480], [0.8, 0.8, 0.8, 1], [0.1, 0.2, 0.3, 1]]
        [])
     = [GL_viewport (Some 10) (Some 10) (Some 620) (Some 460),
        GL_scissor (Some 0) (Some 0) (Some 640) (Some 480),
        GL_clearColor (Some 0.1) (Some 0.2) (Some 0.3) (Some 1),
        GL_enable SCISSOR_TEST, GL_clear COLOR_BUFFER_BIT, GL_disable SCISSOR_TEST]
   \<and> clears_under_scissor False
        [GL_viewport (Some 10) (Some 10) (Some 620) (Some 460),
         GL_scissor (Some 0) (Some 0) (Some 640) (Some 480),
         GL_clearColor (Some 0.1) (Some 0.2) (Some 0.3) (Some 1),
         GL_enable SCISSOR_TEST, GL_clear COLOR_BUFFER_BIT, GL_disable SCISSOR_TEST]
   \<and> snd (setViewAndCameraMatrix (setWCWidth 0 example_camera) example_heap [])
     = [GL_viewport (Some 0) (Some 0) (Some 640) (Some 480),
        GL_scissor (Some 0) (Some 0) (Some 640) (Some 480),
        GL_clearColor (Some 0.8) (Some 0.8) (Some 0.8) (Some 1),
        GL_enable SCISSOR_TEST, GL_clear COLOR_BUFFER_BIT, GL_disable SCISSOR_TEST]"
proof -
  let ?h = "example_heap @ [[0.1, 0.2, 0.3, 1]]"
  have sv: "setViewport example_camera 0 (Some 10) ?h
     = Some [[0, 0, 640, 480], [10, 10, 620, 460], [0, 0, 640, 480], [0.8, 0.8, 0.8, 1],
             [0.1, 0.2, 0.3, 1]]"
    by (simp add: example_camera_def example_heap_def setViewport_def js_get_def js_set_def
        arr_set_simps Let_def)
  have pre: "mViewport example_camera < length ?h" "mScissorBound example_camera < length ?h"
      "0 < length ?h" "mViewport example_camera \<noteq> mScissorBound example_camera"
      "0 \<noteq> mViewport example_camera" "?h ! 0 = [0, 0, 640, 480]"
      "length (?h ! mViewport example_camera) \<le> 4" "length (?h ! mScissorBound example_camera) \<le> 4"
      "(10::real) = (case Some 10 of None \<Rightarrow> mViewportBound example_camera | Some b' \<Rightarrow> b')"
      "4 < length ?h" "4 \<noteq> mViewport example_camera" "4 \<noteq> mScissorBound example_camera"
      "?h ! 4 = [0.1, 0.2, 0.3, 1]"
    by (simp_all add: example_camera_def example_heap_def)
  note t = draw_prep_gl_order [OF pre sv refl, of "[]"]
  have 1: "snd (setViewAndCameraMatrix (setBackgroundColor 4 example_camera)
        [[0, 0, 640, 480], [10, 10, 620, 460], [0, 0, 640, 480], [0.8, 0.8, 0.8, 1], [0.1, 0.2, 0.3, 1]]
        [])
     = [GL_viewport (Some 10) (Some 10) (Some 620) (Some 460),
        GL_scissor (Some 0) (Some 0) (Some 640) (Some 480),
        GL_clearColor (Some 0.1) (Some 0.2) (Some 0.3) (Some 1),
        GL_enable SCISSOR_TEST, GL_clear COLOR_BUFFER_BIT, GL_disable SCISSOR_TEST]"
    using t [THEN conjunct1] by simp
  have 2: "snd (setViewAndCameraMatrix (setWCWidth 0 example_camera) example_heap [])
     = [GL_viewport (Some 0) (Some 0) (Some 640) (Some 480),
        GL_scissor (Some 0) (Some 0) (Some 640) (Some 480),
        GL_clearColor (Some 0.8) (Some 0.8) (Some 0.8) (Some 1),
        GL_enable SCISSOR_TEST, GL_clear COLOR_BUFFER_BIT, GL_disable SCISSOR_TEST]"
    by (simp add: setViewAndCameraMatrix_def Let_def example_camera_fields js_get_def)
  show ?thesis
    using 1 2 by simp
qed

text \<open>
  C10. \<open>getBackgroundColor()\<close> after \<open>setBackgroundColor(col)\<close> is the reference \<open>col\<close>
  itself. So a write through the returned reference is a write to the colour the camera
  uses: the next \<open>setViewAndCameraMatrix()\<close> passes the changed components to the clear
  colour call, where before the write it passed the original ones.
\<close>

theorem getBackgroundColor_same_array:
  assumes vp: "mViewport c < length h" "h ! mViewport c = [vx, vy, vw, vh]"
    and sc: "mScissorBound c < length h" "h ! mScissorBound c = [sx, sy, sw, sh]"
    and col: "col < length h" "col \<noteq> mViewport c" "col \<noteq> mScissorBound c" "h ! col = [r, g, bl, a]"
    and i: "i < 4"
    and c': "c' = setBackgroundColor col c"
    and h': "js_set (getBackgroundColor c') i v h = Some h'"
    and new: "[r', g', bl', a'] = [r, g, bl, a][i := v]"
  shows "getBackgroundColor c' = col
       \<and> snd (setViewAndCameraMatrix c' h gl)
           = gl @ [GL_viewport (Some vx) (Some vy) (Some vw) (Some vh),
                   GL_scissor (Some sx) (Some sy) (Some sw) (Some sh),
                   GL_clearColor (Some r) (Some g) (Some bl) (Some a),
                   GL_enable SCISSOR_TEST, GL_clear COLOR_BUFFER_BIT, GL_disable SCISSOR_TEST]
       \<and> snd (setViewAndCameraMatrix c' h' gl)
           = gl @ [GL_viewport (Some vx) (Some vy) (Some vw) (Some vh),
                   GL_scissor (Some sx) (Some sy) (Some sw) (Some sh),
                   GL_clearColor (Some r') (Some g') (Some bl') (Some a'),
                   GL_enable SCISSOR_TEST, GL_clear COLOR_BUFFER_BIT, GL_disable SCISSOR_TEST]"
proof -
  have ref: "getBackgroundColor c' = col"
    by (simp add: c' getBackgroundColor_def setBackgroundColor_def)
  have eq: "h' = h[col := [r', g', bl', a']]"
    using h' col i by (simp add: ref js_set_def arr_set_def new)
  have flds: "mViewport c' = mViewport c" "mScissorBound c' = mScissorBound c" "mBGColor c' = col"
    by (simp_all add: c' setBackgroundColor_def)
  have before: "snd (setViewAndCameraMatrix c' h gl)
           = gl @ [GL_viewport (Some vx) (Some vy) (Some vw) (Some vh),
                   GL_scissor (Some sx) (Some sy) (Some sw) (Some sh),
                   GL_clearColor (Some r) (Some g) (Some bl) (Some a),
                   GL_enable SCISSOR_TEST, GL_clear COLOR_BUFFER_BIT, GL_disable SCISSOR_TEST]"
    using vp sc col by (simp add: setViewAndCameraMatrix_def Let_def flds js_get_def)
  have after: "snd (setViewAndCameraMatrix c' h' gl)
           = gl @ [GL_viewport (Some vx) (Some vy) (Some vw) (Some vh),
                   GL_scissor (Some sx) (Some sy) (Some sw) (Some sh),
                   GL_clearColor (Some r') (Some g') (Some bl') (Some a'),
                   GL_enable SCISSOR_TEST, GL_clear COLOR_BUFFER_BIT, GL_disable SCISSOR_TEST]"
    using vp sc col by (simp add: setViewAndCameraMatrix_def Let_def flds js_get_def eq)
  show ?thesis
    using ref before after by blast
qed

text \<open>
  The caller sets the colour array (0.1, 0.2, 0.3, 1), then writes 0.9 to the first
  element of the array \<open>getBackgroundColor()\<close> returns: the next clear uses 0.9.
\<close>

theorem getBackgroundColor_same_array_witness:
  "getBackgroundColor (setBackgroundColor 4 example_camera) = 4
   \<and> js_set 4 0 0.9 (example_heap @ [[0.1, 0.2, 0.3, 1]])
       = Some [[0, 0, 640, 480], [0, 0, 640, 480], [0, 0, 640, 480], [0.8, 0.8, 0.8, 1],
               [0.9, 0.2, 0.3, 1]]
   \<and> snd (setViewAndCameraMatrix (setBackgroundColor 4 example_camera)
           [[0, 0, 640, 480], [0, 0, 640, 480], [0, 0, 640, 480], [0.8, 0.8, 0.8, 1],
            [0.9, 0.2, 0.3, 1]] [])
       = [GL_viewport (Some 0) (Some 0) (Some 640) (Some 480),
          GL_scissor (Some 0) (Some 0) (Some 640) (Some 480),
          GL_clearColor (Some 0.9) (Some 0.2) (Some 0.3) (Some 1),
          GL_enable SCISSOR_TEST, GL_clear COLOR_BUFFER_BIT, GL_disable SCISSOR_TEST]"
proof -
  let ?h = "example_heap @ [[0.1, 0.2, 0.3, 1]]"
  let ?c = "setBackgroundColor 4 example_camera"
  have ref: "getBackgroundColor ?c = 4"
    by (simp add: getBackgroundColor_def setBackgroundColor_def)
  have wr: "js_set (getBackgroundColor ?c) 0 0.9 ?h
       = Some [[0, 0, 640, 480], [0, 0, 640, 480], [0, 0, 640, 480], [0.8, 0.8, 0.8, 1],
               [0.9, 0.2, 0.3, 1]]"
    by (simp add: ref example_heap_def js_set_def arr_set_simps)
  have pre: "mViewport example_camera < length ?h" "?h ! mViewport example_camera = [0, 0, 640, 480]"
      "mScissorBound example_camera < length ?h" "?h ! mScissorBound example_camera = [0, 0, 640, 480]"
      "4 < length ?h" "4 \<noteq> mViewport example_camera" "4 \<noteq> mScissorBound example_camera"
      "?h ! 4 = [0.1, 0.2, 0.3, 1]" "(0::nat) < 4"
    by (simp_all add: example_camera_def example_heap_def)
  have new: "[0.9, 0.2, 0.3, 1] = [0.1, 0.2, 0.3, 1::real][0 := 0.9]"
    by simp
  show ?thesis
    using getBackgroundColor_same_array [OF pre refl wr new, of "[]"] wr by (simp add: ref)
qed


section \<open>Collide and clamp at the WC bounds\<close>

lemma boundCollideStatus_mem:
  "eCollideLeft \<in> boundCollideStatus a b \<longleftrightarrow> minX b < minX a"
  "eCollideRight \<in> boundCollideStatus a b \<longleftrightarrow> maxX b > maxX a"
  "eCollideBottom \<in> boundCollideStatus a b \<longleftrightarrow> minY b < minY a"
  "eCollideTop \<in> boundCollideStatus a b \<longleftrightarrow> maxY b > maxY a"
  by (auto simp: boundCollideStatus_def Let_def eInside_def split: if_splits)

lemma boundCollideStatus_inside:
  "boundCollideStatus a b = eInside \<longleftrightarrow>
     \<not> minX b < minX a \<and> \<not> maxX b > maxX a \<and> \<not> minY b < minY a \<and> \<not> maxY b > maxY a"
  by (auto simp: boundCollideStatus_def Let_def eInside_def split: if_splits)

text \<open>
  What \<open>clampAtBoundary\<close> returns, from the status of the position before the call. On
  each axis the later of the two assignments wins: left over right, bottom over top.
\<close>

lemma clampAtBoundary_result:
  assumes hgt: "getWCHeight c hp = Some H"
    and W: "W = getWCWidth c" and cc: "cc = getWCCenter c"
    and st: "st = boundCollideStatus (BoundingBox_new cc (zone * W) (zone * H))
                    (BoundingBox_new (getPosition xf) (getWidth xf) (getHeight xf))"
    and x': "x' = (if eCollideLeft \<in> st then fst cc - zone * W / 2 + getWidth xf / 2
                   else if eCollideRight \<in> st then fst cc + zone * W / 2 - getWidth xf / 2
                   else fst (getPosition xf))"
    and y': "y' = (if eCollideBottom \<in> st then snd cc - zone * H / 2 + getHeight xf / 2
                   else if eCollideTop \<in> st then snd cc + zone * H / 2 - getHeight xf / 2
                   else snd (getPosition xf))"
  shows "collideWCBound c xf zone hp = Some st
       \<and> clampAtBoundary c xf zone hp = Some (st, xf\<lparr>xf_position := (x', y')\<rparr>)"
proof -
  have cw: "collideWCBound c xf zone hp = Some st"
    by (simp add: collideWCBound_def hgt Let_def st W cc)
  have ins: "st = eInside \<Longrightarrow> x' = fst (getPosition xf) \<and> y' = snd (getPosition xf)"
    by (simp add: x' y' eInside_def)
  show ?thesis
  proof (cases "st = eInside")
    case True
    then show ?thesis
      using ins by (simp add: cw clampAtBoundary_def getPosition_def)
  next
    case False
    then show ?thesis
      by (simp add: cw clampAtBoundary_def hgt Let_def x' y' W cc)
  qed
qed

lemmas clamp_eval =
  clampAtBoundary_def collideWCBound_def getWCHeight_def js_get_def js_div_def eWidth_def
  eHeight_def cs_getWidth_def getWCWidth_def getWCCenter_def cs_getCenter_def getPosition_def
  getWidth_def getHeight_def BoundingBox_new_def boundCollideStatus_def minX_def maxX_def
  minY_def maxY_def eInside_def Let_def example_camera_def example_heap_def

text \<open>
  C2, as stated, fails: an object that violates two opposite edges cannot sit on both.
  The object of height 20 at (0, 0) violates the top and the bottom of the window of
  height 15. The call assigns the top clamp \<open>0 + 15/2 - 20/2 = -5/2\<close> and then the
  bottom clamp \<open>0 - 15/2 + 20/2 = 5/2\<close>, which stays: the object's top edge ends at
  \<open>25/2\<close>, not on the window's top edge at \<open>15/2\<close>.
\<close>

theorem clampAtBoundary_opposite_edges_counterexample:
  "clampAtBoundary example_camera tall_xform 1 example_heap
     = Some ({eCollideTop, eCollideBottom}, tall_xform\<lparr>xf_position := (0, 5 / 2)\<rparr>)
   \<and> getWCHeight example_camera example_heap = Some 15
   \<and> snd (getPosition (tall_xform\<lparr>xf_position := (0, 5 / 2)\<rparr>))
       \<noteq> snd (getWCCenter example_camera) + (1 * 15 / 2) - (getHeight tall_xform / 2)
   \<and> maxY (BoundingBox_new (0, 5 / 2) 2 20) \<noteq> maxY (BoundingBox_new (0, 0) (1 * 20) (1 * 15))"
  by (simp add: clamp_eval tall_xform_def)

text \<open>
  C2, amended. \<open>clampAtBoundary(xform, zone)\<close> returns the status that \<open>collideWCBound\<close>
  computes on the position before the call, and leaves the size alone. On each axis, when
  one edge is violated the position is set so that the object's edge lies exactly on that
  edge of the zone (collide-right gives \<open>x = center.x + zone W / 2 - width / 2\<close>); when
  both edges of an axis are violated, the object is put on the left, respectively the
  bottom, edge. The two axes are treated independently, and an object inside is not
  moved.
\<close>

theorem clampAtBoundary_status_and_position:
  assumes vp: "mViewport c < length hp" "hp ! mViewport c = [vx, vy, vw, vh]" "vw \<noteq> 0"
    and W: "W = getWCWidth c" and H: "H = W * (vh / vw)" and cc: "cc = getWCCenter c"
    and cb: "cameraBound = BoundingBox_new cc (zone * W) (zone * H)"
    and st: "st = boundCollideStatus cameraBound
                    (BoundingBox_new (getPosition xf) (getWidth xf) (getHeight xf))"
    and x': "x' = (if eCollideLeft \<in> st then fst cc - zone * W / 2 + getWidth xf / 2
                   else if eCollideRight \<in> st then fst cc + zone * W / 2 - getWidth xf / 2
                   else fst (getPosition xf))"
    and y': "y' = (if eCollideBottom \<in> st then snd cc - zone * H / 2 + getHeight xf / 2
                   else if eCollideTop \<in> st then snd cc + zone * H / 2 - getHeight xf / 2
                   else snd (getPosition xf))"
    and xf': "xf' = xf\<lparr>xf_position := (x', y')\<rparr>"
    and bbox': "bbox' = BoundingBox_new (getPosition xf') (getWidth xf') (getHeight xf')"
  shows "collideWCBound c xf zone hp = Some st
       \<and> clampAtBoundary c xf zone hp = Some (st, xf')
       \<and> getWidth xf' = getWidth xf \<and> getHeight xf' = getHeight xf
       \<and> (eCollideLeft \<in> st \<longrightarrow> minX bbox' = minX cameraBound)
       \<and> (eCollideRight \<in> st \<and> eCollideLeft \<notin> st \<longrightarrow> maxX bbox' = maxX cameraBound)
       \<and> (eCollideBottom \<in> st \<longrightarrow> minY bbox' = minY cameraBound)
       \<and> (eCollideTop \<in> st \<and> eCollideBottom \<notin> st \<longrightarrow> maxY bbox' = maxY cameraBound)
       \<and> (st = eInside \<longrightarrow> xf' = xf)"
proof -
  have hgt: "getWCHeight c hp = Some H"
    using getWCHeight_result [OF vp] by (simp add: H W)
  have res: "collideWCBound c xf zone hp = Some st \<and> clampAtBoundary c xf zone hp = Some (st, xf')"
    using clampAtBoundary_result [OF hgt W cc st [unfolded cb] x' y'] by (simp add: xf')
  have size: "getWidth xf' = getWidth xf \<and> getHeight xf' = getHeight xf"
    by (simp add: xf' getWidth_def getHeight_def)
  have l: "eCollideLeft \<in> st \<longrightarrow> minX bbox' = minX cameraBound"
    by (simp add: bbox' cb xf' x' minX_def BoundingBox_new_def getPosition_def getWidth_def)
  have r: "eCollideRight \<in> st \<and> eCollideLeft \<notin> st \<longrightarrow> maxX bbox' = maxX cameraBound"
    by (simp add: bbox' cb xf' x' maxX_def BoundingBox_new_def getPosition_def getWidth_def)
  have b: "eCollideBottom \<in> st \<longrightarrow> minY bbox' = minY cameraBound"
    by (simp add: bbox' cb xf' y' minY_def BoundingBox_new_def getPosition_def getHeight_def)
  have t: "eCollideTop \<in> st \<and> eCollideBottom \<notin> st \<longrightarrow> maxY bbox' = maxY cameraBound"
    by (simp add: bbox' cb xf' y' maxY_def BoundingBox_new_def getPosition_def getHeight_def)
  have i: "st = eInside \<longrightarrow> xf' = xf"
    by (simp add: xf' x' y' eInside_def getPosition_def)
  show ?thesis
    using res size l r b t i by blast
qed

text \<open>
  The spec's scenario: the object at (11, 0) of width 2 reaches to 12, beyond the right
  edge of the window at 10; the status is collide-right and the clamped x is 9.
\<close>

theorem clampAtBoundary_status_and_position_witness:
  "collideWCBound example_camera example_xform 1 example_heap = Some {eCollideRight}
   \<and> clampAtBoundary example_camera example_xform 1 example_heap
       = Some ({eCollideRight}, example_xform\<lparr>xf_position := (9, 0)\<rparr>)
   \<and> maxX (BoundingBox_new (9, 0) 2 2) = maxX (BoundingBox_new (0, 0) 20 15)"
proof -
  have vp: "mViewport example_camera < length example_heap"
      "example_heap ! mViewport example_camera = [0, 0, 640, 480]" "(640::real) \<noteq> 0"
    and W: "20 = getWCWidth example_camera" and H: "(15::real) = 20 * (480 / 640)"
    and cc: "(0, 0) = getWCCenter example_camera"
    by (simp_all add: example_camera_def example_heap_def getWCWidth_def cs_getWidth_def
        getWCCenter_def cs_getCenter_def)
  have st: "{eCollideRight} = boundCollideStatus (BoundingBox_new (0, 0) (1 * 20) (1 * 15))
              (BoundingBox_new (getPosition example_xform) (getWidth example_xform)
                 (getHeight example_xform))"
    by (simp add: clamp_eval example_xform_def)
  have x': "(9::real) = (if eCollideLeft \<in> {eCollideRight}
                 then fst (0::real, 0::real) - 1 * 20 / 2 + getWidth example_xform / 2
               else if eCollideRight \<in> {eCollideRight}
                 then fst (0::real, 0::real) + 1 * 20 / 2 - getWidth example_xform / 2
               else fst (getPosition example_xform))"
    and y': "(0::real) = (if eCollideBottom \<in> {eCollideRight}
                 then snd (0::real, 0::real) - 1 * 15 / 2 + getHeight example_xform / 2
               else if eCollideTop \<in> {eCollideRight}
                 then snd (0::real, 0::real) + 1 * 15 / 2 - getHeight example_xform / 2
               else snd (getPosition example_xform))"
    by (simp_all add: example_xform_def getWidth_def getHeight_def getPosition_def)
  show ?thesis
    using clampAtBoundary_status_and_position [OF vp W H cc refl st x' y' refl refl]
    by (simp add: example_xform_def getPosition_def getWidth_def getHeight_def)
qed

text \<open>
  C3, as stated, fails on the same tall object: the first call leaves it at \<open>y = 5/2\<close>,
  where it no longer violates the bottom but still violates the top; the second call
  moves it to \<open>y = -5/2\<close>.
\<close>

theorem clampAtBoundary_twice_counterexample:
  "clampAtBoundary example_camera tall_xform 1 example_heap
     = Some ({eCollideTop, eCollideBottom}, tall_xform\<lparr>xf_position := (0, 5 / 2)\<rparr>)
   \<and> clampAtBoundary example_camera (tall_xform\<lparr>xf_position := (0, 5 / 2)\<rparr>) 1 example_heap
     = Some ({eCollideTop}, tall_xform\<lparr>xf_position := (0, - 5 / 2)\<rparr>)
   \<and> getPosition (tall_xform\<lparr>xf_position := (0, - 5 / 2)\<rparr>)
       \<noteq> getPosition (tall_xform\<lparr>xf_position := (0, 5 / 2)\<rparr>)"
  by (simp add: clamp_eval tall_xform_def)

text \<open>
  C3, amended. For an object no wider and no taller than the zone
  (\<open>width \<le> zone W\<close> and \<open>height \<le> zone H\<close>), a second \<open>clampAtBoundary(xform, zone)\<close>
  finds the object inside and leaves the position the first call produced.
\<close>

theorem clampAtBoundary_idempotent_when_fits:
  assumes vp: "mViewport c < length hp" "hp ! mViewport c = [vx, vy, vw, vh]" "vw \<noteq> 0"
    and W: "W = getWCWidth c" and H: "H = W * (vh / vw)"
    and fitw: "getWidth xf \<le> zone * W" and fith: "getHeight xf \<le> zone * H"
    and first: "clampAtBoundary c xf zone hp = Some (st1, xf1)"
  shows "clampAtBoundary c xf1 zone hp = Some (eInside, xf1)
       \<and> map_option (getPosition \<circ> snd) (clampAtBoundary c xf1 zone hp) = Some (getPosition xf1)"
proof -
  have hgt: "getWCHeight c hp = Some H"
    using getWCHeight_result [OF vp] by (simp add: H W)
  define cc where "cc = getWCCenter c"
  define st where "st = boundCollideStatus (BoundingBox_new cc (zone * W) (zone * H))
                    (BoundingBox_new (getPosition xf) (getWidth xf) (getHeight xf))"
  define x' where "x' = (if eCollideLeft \<in> st then fst cc - zone * W / 2 + getWidth xf / 2
                   else if eCollideRight \<in> st then fst cc + zone * W / 2 - getWidth xf / 2
                   else fst (getPosition xf))"
  define y' where "y' = (if eCollideBottom \<in> st then snd cc - zone * H / 2 + getHeight xf / 2
                   else if eCollideTop \<in> st then snd cc + zone * H / 2 - getHeight xf / 2
                   else snd (getPosition xf))"
  have r1: "clampAtBoundary c xf zone hp = Some (st, xf\<lparr>xf_position := (x', y')\<rparr>)"
    using clampAtBoundary_result [OF hgt W cc_def st_def x'_def y'_def] by simp
  have xf1: "xf1 = xf\<lparr>xf_position := (x', y')\<rparr>"
    using r1 first by simp
  have sizes: "getWidth xf1 = getWidth xf" "getHeight xf1 = getHeight xf" "getPosition xf1 = (x', y')"
    by (simp_all add: xf1 getWidth_def getHeight_def getPosition_def)
  have inside: "boundCollideStatus (BoundingBox_new cc (zone * W) (zone * H))
                    (BoundingBox_new (getPosition xf1) (getWidth xf1) (getHeight xf1)) = eInside"
    unfolding boundCollideStatus_inside sizes
    using fitw fith
    by (auto simp: x'_def y'_def st_def boundCollideStatus_mem minX_def maxX_def minY_def maxY_def
        BoundingBox_new_def mult.commute)
  have "clampAtBoundary c xf1 zone hp = Some (eInside, xf1)"
    using clampAtBoundary_result [OF hgt W cc_def inside [symmetric] refl refl]
    by (simp add: eInside_def getPosition_def)
  then show ?thesis
    by simp
qed

text \<open>
  The object of the scenario fits the window; clamped to (9, 0) by the first call, it is
  inside for the second call, which leaves it at (9, 0).
\<close>

theorem clampAtBoundary_idempotent_when_fits_witness:
  "clampAtBoundary example_camera example_xform 1 example_heap
     = Some ({eCollideRight}, example_xform\<lparr>xf_position := (9, 0)\<rparr>)
   \<and> clampAtBoundary example_camera (example_xform\<lparr>xf_position := (9, 0)\<rparr>) 1 example_heap
     = Some (eInside, example_xform\<lparr>xf_position := (9, 0)\<rparr>)
   \<and> map_option (getPosition \<circ> snd)
        (clampAtBoundary example_camera (example_xform\<lparr>xf_position := (9, 0)\<rparr>) 1 example_heap)
     = Some (9, 0)"
proof -
  have vp: "mViewport example_camera < length example_heap"
      "example_heap ! mViewport example_camera = [0, 0, 640, 480]" "(640::real) \<noteq> 0"
    and W: "20 = getWCWidth example_camera" and H: "(15::real) = 20 * (480 / 640)"
    and fit: "getWidth example_xform \<le> 1 * 20" "getHeight example_xform \<le> 1 * 15"
    by (simp_all add: example_camera_def example_heap_def getWCWidth_def cs_getWidth_def
        example_xform_def getWidth_def getHeight_def)
  have first: "clampAtBoundary example_camera example_xform 1 example_heap
     = Some ({eCollideRight}, example_xform\<lparr>xf_position := (9, 0)\<rparr>)"
    by (simp add: clamp_eval example_xform_def)
  show ?thesis
    using clampAtBoundary_idempotent_when_fits [OF vp W H fit first] first
    by (simp add: getPosition_def)
qed


text \<open>
  The condition cannot be dropped on either axis: an object wider or taller than the zone
  is moved again by the second call, wherever it started.
\<close>

lemma clampAtBoundary_moves_oversize:
  assumes vp: "mViewport c < length hp" "hp ! mViewport c = [vx, vy, vw, vh]" "vw \<noteq> 0"
    and W: "W = getWCWidth c" and H: "H = W * (vh / vw)"
    and over: "zone * W < getWidth xf \<or> zone * H < getHeight xf"
    and first: "clampAtBoundary c xf zone hp = Some (st1, xf1)"
    and second: "clampAtBoundary c xf1 zone hp = Some (st2, xf2)"
  shows "getPosition xf2 \<noteq> getPosition xf1"
proof -
  have hgt: "getWCHeight c hp = Some H"
    using getWCHeight_result [OF vp] by (simp add: H W)
  define cc where "cc = getWCCenter c"
  define st where "st = boundCollideStatus (BoundingBox_new cc (zone * W) (zone * H))
                    (BoundingBox_new (getPosition xf) (getWidth xf) (getHeight xf))"
  define x' where "x' = (if eCollideLeft \<in> st then fst cc - zone * W / 2 + getWidth xf / 2
                   else if eCollideRight \<in> st then fst cc + zone * W / 2 - getWidth xf / 2
                   else fst (getPosition xf))"
  define y' where "y' = (if eCollideBottom \<in> st then snd cc - zone * H / 2 + getHeight xf / 2
                   else if eCollideTop \<in> st then snd cc + zone * H / 2 - getHeight xf / 2
                   else snd (getPosition xf))"
  have r1: "clampAtBoundary c xf zone hp = Some (st, xf\<lparr>xf_position := (x', y')\<rparr>)"
    using clampAtBoundary_result [OF hgt W cc_def st_def x'_def y'_def] by simp
  have xf1: "xf1 = xf\<lparr>xf_position := (x', y')\<rparr>"
    using r1 first by simp
  have sizes: "getWidth xf1 = getWidth xf" "getHeight xf1 = getHeight xf" "getPosition xf1 = (x', y')"
    by (simp_all add: xf1 getWidth_def getHeight_def getPosition_def)
  define st' where "st' = boundCollideStatus (BoundingBox_new cc (zone * W) (zone * H))
                    (BoundingBox_new (getPosition xf1) (getWidth xf1) (getHeight xf1))"
  define x'' where "x'' = (if eCollideLeft \<in> st' then fst cc - zone * W / 2 + getWidth xf1 / 2
                   else if eCollideRight \<in> st' then fst cc + zone * W / 2 - getWidth xf1 / 2
                   else fst (getPosition xf1))"
  define y'' where "y'' = (if eCollideBottom \<in> st' then snd cc - zone * H / 2 + getHeight xf1 / 2
                   else if eCollideTop \<in> st' then snd cc + zone * H / 2 - getHeight xf1 / 2
                   else snd (getPosition xf1))"
  have r2: "clampAtBoundary c xf1 zone hp = Some (st', xf1\<lparr>xf_position := (x'', y'')\<rparr>)"
    using clampAtBoundary_result [OF hgt W cc_def st'_def x''_def y''_def] by simp
  have xf2: "getPosition xf2 = (x'', y'')"
    using r2 second by (auto simp: getPosition_def)
  have "x'' \<noteq> x' \<or> y'' \<noteq> y'"
    using over
    unfolding x''_def y''_def st'_def sizes
    by (auto simp: x'_def y'_def st_def boundCollideStatus_mem minX_def maxX_def minY_def maxY_def
        BoundingBox_new_def mult.commute)
  then show ?thesis
    by (auto simp: xf2 sizes)
qed


section \<open>Game objects\<close>

text \<open>
  C8. When the renderable of either game object has no \<open>pixelTouches\<close> function,
  \<open>pixelTouches(otherObj, wcTouchPos)\<close> returns false and makes no call on either
  renderable: no \<open>setColorArray\<close>, no per-pixel test, whatever the bounding boxes, the
  rotations and the per-pixel test would say.
\<close>

theorem pixelTouches_without_capability:
  assumes "\<not> ren_hasPixelTouches (getRenderable this) \<or> \<not> ren_hasPixelTouches (getRenderable otherObj)"
  shows "pixelTouches intersectsBound renPixelTouches this otherObj wcTouchPos = (False, [])"
  using assms by (auto simp: pixelTouches_def Let_def)

text \<open>
  One object has the function, the other has not; the boxes intersect and the per-pixel
  test would answer true.
\<close>

theorem pixelTouches_without_capability_witness:
  "pixelTouches (\<lambda>a b. True) (\<lambda>a b p. True)
     (fst (GameObject_new example_texture_renderable []) :: unit GameObject)
     (fst (GameObject_new example_plain_renderable []) :: unit GameObject) (11, 0) = (False, [])"
  using pixelTouches_without_capability [of "fst (GameObject_new example_texture_renderable []) :: unit GameObject"
      "fst (GameObject_new example_plain_renderable []) :: unit GameObject" "\<lambda>a b. True" "\<lambda>a b p. True" "(11, 0)"]
  by (simp add: getRenderable_def GameObject_new_def vec2_fromValues_def js_alloc_def
      example_plain_renderable_def)










end
